theory Spec2Isabelle
  imports Complex_Main
begin

section \<open>Data model\<close>

text \<open>
  The documents of the three collections the lifecycle engine works on, with the fields
  the modelled controllers read or write. A JavaScript Number is taken as a real number
  (a division by zero is modelled, see \<open>js_div\<close>; the rounding of the arithmetic to
  IEEE doubles is modelled for the schedule generator, see \<open>emi_loop_ieee\<close>, and left
  out elsewhere), a Mongo ObjectId as a natural number, and an optional or nullable
  field as an option. Every field carries the prefix of its document (\<open>c_\<close>,
  \<open>a_\<close>, \<open>l_\<close>, \<open>e_\<close>) because the schemas share field names.
\<close>

type_synonym oid = nat

text \<open>
  A JavaScript Date in local time: year, month (0..11, as \<open>getMonth\<close> returns it),
  day of the month (1..31) and the milliseconds since local midnight.
\<close>

record jsdate =
  year :: int
  month :: nat
  day :: nat
  msec :: nat

datatype lien_status = LienNone | Marked | Released

record collateral =
  c_id :: oid
  c_folioNumber :: string
  c_units :: real
  c_navPerUnit :: real
  c_currentValue :: real
  c_lienStatus :: lien_status
  c_lienMarkedDate :: "jsdate option"
  c_lienReleasedDate :: "jsdate option"
  c_linkedApplication :: "oid option"
  c_linkedLoan :: "oid option"

datatype emi_status = Pending | Paid | Overdue | Partially_paid

record emi =
  e_emiNumber :: nat
  e_dueDate :: jsdate
  e_principal :: real
  e_interest :: real
  e_totalAmount :: real
  e_status :: emi_status
  e_paidAmount :: real
  e_paidDate :: "jsdate option"
  e_penaltyAmount :: real
  e_paymentReference :: "string option"

datatype loan_status = Active | LoanOverdue | LoanClosed | Defaulted | Restructured

datatype closure_reason = Fully_paid | Foreclosure | ReasonDefaulted | ReasonRestructured

record loan =
  l_id :: oid
  l_application :: oid
  l_loanProduct :: oid
  l_disbursedAmount :: real
  l_outstandingAmount :: real
  l_tenure :: nat
  l_interestRate :: real
  l_emiAmount :: real
  l_nextEmiDate :: "jsdate option"
  l_collaterals :: "oid list"
  l_totalCollateralValue :: real
  l_currentLTV :: real
  l_status :: loan_status
  l_emiSchedule :: "emi list"
  l_totalPrincipalPaid :: real
  l_totalInterestPaid :: real
  l_disbursedAt :: jsdate
  l_closedAt :: "jsdate option"
  l_closureReason :: "closure_reason option"

datatype app_status =
  Draft | Submitted | Under_review | Approved | Rejected | Disbursed | AppClosed

record application =
  a_id :: oid
  a_loanProduct :: oid
  a_requestedAmount :: real
  a_approvedAmount :: "real option"
  a_tenure :: nat
  a_interestRate :: real
  a_collaterals :: "oid list"
  a_totalCollateralValue :: real
  a_ltv :: real
  a_status :: app_status
  a_remarks :: "string option"
  a_submittedAt :: "jsdate option"
  a_approvedAt :: "jsdate option"
  a_rejectedAt :: "jsdate option"
  a_disbursedAt :: "jsdate option"
  a_closedAt :: "jsdate option"

text \<open>
  The database: one list of documents per collection (a collection holds one document
  per id), and the ids of the loan products that exist (the products themselves are
  read-only configuration).
\<close>

record db =
  collaterals :: "collateral list"
  applications :: "application list"
  loans :: "loan list"
  products :: "oid list"

text \<open>The failures the controllers answer with, and the validation error a save raises.\<close>

datatype error =
    LoanNotFound
  | LoanIsClosed
  | EmiNotFound
  | AlreadyPaid
  | InvalidStatus
  | ApplicationNotFound
  | InvalidTransition
  | CollateralNotFound
  | AlreadyMarked
  | NotMarked
  | ActiveLoanBlock
  | ValidationError
  | TypeError

section \<open>The loan controller\<close>

text \<open>\<open>Array.prototype.findIndex\<close>: the index of the first element that satisfies the test.\<close>

fun findIndex :: "('a \<Rightarrow> bool) \<Rightarrow> 'a list \<Rightarrow> nat option" where
  "findIndex P [] = None"
| "findIndex P (x # xs) =
     (if P x then Some 0 else map_option Suc (findIndex P xs))"

text \<open>
  The schema of a loan puts a minimum on five numbers (\<open>min: [0, ...]\<close> on
  disbursedAmount, outstandingAmount, interestRate and emiAmount, \<open>min: [1, ...]\<close> on
  tenure); \<open>save\<close> validates the document against them and rejects it otherwise.
\<close>

definition loan_valid :: "loan \<Rightarrow> bool" where
  "loan_valid l \<longleftrightarrow>
     0 \<le> l_disbursedAmount l \<and> 0 \<le> l_outstandingAmount l \<and> 1 \<le> l_tenure l \<and>
     0 \<le> l_interestRate l \<and> 0 \<le> l_emiAmount l"

definition put_loan :: "loan \<Rightarrow> loan list \<Rightarrow> loan list" where
  "put_loan l ls = map (\<lambda>x. if l_id x = l_id l then l else x) ls"

text \<open>
  \<open>Collateral.updateMany({ linkedLoan: loan._id }, { lienStatus: 'released',
  lienReleasedDate: new Date(), linkedLoan: null })\<close>, the release of recordPayment.
\<close>

definition release_by_loan :: "jsdate \<Rightarrow> oid \<Rightarrow> collateral list \<Rightarrow> collateral list" where
  "release_by_loan now lid cs =
     map (\<lambda>c. if c_linkedLoan c = Some lid
               then c\<lparr>c_lienStatus := Released, c_lienReleasedDate := Some now,
                      c_linkedLoan := None\<rparr>
               else c) cs"

text \<open>
  recordPayment. \<open>now\<close> stands for the \<open>new Date()\<close> of the request (its calls
  within one request are taken as one instant). The answer is the failure or success, the
  second component the database the request leaves behind.
\<close>

definition pay_emi :: "real \<Rightarrow> string option \<Rightarrow> jsdate \<Rightarrow> emi \<Rightarrow> emi" where
  "pay_emi amount paymentReference paidDate e =
     e\<lparr>e_status := Paid, e_paidAmount := amount, e_paidDate := Some paidDate,
       e_paymentReference := paymentReference\<rparr>"

text \<open>The totals, the next EMI date and the current LTV after EMI \<open>emi\<close> is paid.\<close>

definition update_totals :: "emi list \<Rightarrow> emi \<Rightarrow> loan \<Rightarrow> loan" where
  "update_totals schedule emi loan =
     (let outstanding = l_outstandingAmount loan - e_principal emi
      in loan\<lparr>
           l_emiSchedule := schedule,
           l_totalPrincipalPaid := l_totalPrincipalPaid loan + e_principal emi,
           l_totalInterestPaid := l_totalInterestPaid loan + e_interest emi,
           l_outstandingAmount := outstanding,
           l_nextEmiDate := map_option e_dueDate (find (\<lambda>e. e_status e = Pending) schedule),
           l_currentLTV :=
             (if 0 < l_totalCollateralValue loan
              then outstanding / l_totalCollateralValue loan * 100
              else l_currentLTV loan)\<rparr>)"

text \<open>\<open>loan.outstandingAmount <= 0 || !nextPendingEmi\<close>\<close>

definition fully_paid :: "loan \<Rightarrow> bool" where
  "fully_paid loan \<longleftrightarrow>
     l_outstandingAmount loan \<le> 0 \<or> find (\<lambda>e. e_status e = Pending) (l_emiSchedule loan) = None"

definition close_loan :: "jsdate \<Rightarrow> loan \<Rightarrow> loan" where
  "close_loan now loan =
     loan\<lparr>l_status := LoanClosed, l_closedAt := Some now, l_closureReason := Some Fully_paid\<rparr>"

text \<open>The check for overdue status that ends recordPayment.\<close>

definition overdue_check :: "loan \<Rightarrow> loan" where
  "overdue_check loan =
     (let hasOverdue = list_ex (\<lambda>e. e_status e = Overdue) (l_emiSchedule loan)
      in if hasOverdue \<and> l_status loan \<noteq> LoanClosed then loan\<lparr>l_status := LoanOverdue\<rparr>
         else if \<not> hasOverdue \<and> l_status loan = LoanOverdue then loan\<lparr>l_status := Active\<rparr>
         else loan)"

definition recordPayment ::
  "jsdate \<Rightarrow> oid \<Rightarrow> nat \<Rightarrow> real \<Rightarrow> string option \<Rightarrow> jsdate option \<Rightarrow> db \<Rightarrow> (error + loan) \<times> db" where
  "recordPayment now loanId emiNumber amount paymentReference paymentDate s =
     (case find (\<lambda>l. l_id l = loanId) (loans s) of
        None \<Rightarrow> (Inl LoanNotFound, s)
      | Some loan \<Rightarrow>
          if l_status loan = LoanClosed then (Inl LoanIsClosed, s)
          else
            (case findIndex (\<lambda>e. e_emiNumber e = emiNumber) (l_emiSchedule loan) of
               None \<Rightarrow> (Inl EmiNotFound, s)
             | Some emiIndex \<Rightarrow>
                 let emi = l_emiSchedule loan ! emiIndex in
                 if e_status emi = Paid then (Inl AlreadyPaid, s)
                 else
                   let schedule = (l_emiSchedule loan)
                         [emiIndex := pay_emi amount paymentReference
                            (case paymentDate of Some d \<Rightarrow> d | None \<Rightarrow> now) emi];
                       loan1 = update_totals schedule emi loan;
                       loan2 = (if fully_paid loan1 then close_loan now loan1 else loan1);
                       cols = (if fully_paid loan1
                               then release_by_loan now (l_id loan) (collaterals s)
                               else collaterals s);
                       loan3 = overdue_check loan2
                   in if loan_valid loan3
                      then (Inr loan3, s\<lparr>collaterals := cols, loans := put_loan loan3 (loans s)\<rparr>)
                      else (Inl ValidationError, s\<lparr>collaterals := cols\<rparr>)))"

text \<open>
  updateLoanStatus: the administrative override. The requested status is whatever string
  the request carries; \<open>validStatuses.includes(status)\<close> admits the five names.
\<close>

fun loan_status_name :: "loan_status \<Rightarrow> string" where
  "loan_status_name Active = ''active''"
| "loan_status_name LoanOverdue = ''overdue''"
| "loan_status_name LoanClosed = ''closed''"
| "loan_status_name Defaulted = ''defaulted''"
| "loan_status_name Restructured = ''restructured''"

definition validStatuses :: "loan_status list" where
  "validStatuses = [Active, LoanOverdue, LoanClosed, Defaulted, Restructured]"

definition updateLoanStatus :: "jsdate \<Rightarrow> oid \<Rightarrow> string \<Rightarrow> db \<Rightarrow> (error + loan) \<times> db" where
  "updateLoanStatus now loanId status s =
     (case find (\<lambda>l. l_id l = loanId) (loans s) of
        None \<Rightarrow> (Inl LoanNotFound, s)
      | Some loan \<Rightarrow>
          (case find (\<lambda>st. loan_status_name st = status) validStatuses of
             None \<Rightarrow> (Inl InvalidStatus, s)
           | Some st \<Rightarrow>
               let loan1 = loan\<lparr>l_status := st\<rparr>;
                   loan2 = (if st = LoanClosed then loan1\<lparr>l_closedAt := Some now\<rparr>
                            else loan1)
               in if loan_valid loan2
                  then (Inr loan2, s\<lparr>loans := put_loan loan2 (loans s)\<rparr>)
                  else (Inl ValidationError, s)))"

text \<open>
  markOverdueEmis. \<open>today\<close> is the request's date with \<open>setHours(0, 0, 0, 0)\<close>;
  two dates compare by their time values, which for calendar fields is the
  lexicographic order.
\<close>

definition date_less :: "jsdate \<Rightarrow> jsdate \<Rightarrow> bool" where
  "date_less a b \<longleftrightarrow>
     year a < year b \<or> (year a = year b \<and>
       (month a < month b \<or> (month a = month b \<and>
         (day a < day b \<or> (day a = day b \<and> msec a < msec b)))))"

definition is_due :: "jsdate \<Rightarrow> emi \<Rightarrow> bool" where
  "is_due today e \<longleftrightarrow> e_status e = Pending \<and> date_less (e_dueDate e) today"

definition mark_emi :: "jsdate \<Rightarrow> emi \<Rightarrow> emi" where
  "mark_emi today e = (if is_due today e then e\<lparr>e_status := Overdue\<rparr> else e)"

text \<open>The query of the sweep: status active or overdue, and some EMI pending.\<close>

definition in_sweep :: "loan \<Rightarrow> bool" where
  "in_sweep l \<longleftrightarrow>
     (l_status l = Active \<or> l_status l = LoanOverdue) \<and>
     list_ex (\<lambda>e. e_status e = Pending) (l_emiSchedule l)"

text \<open>
  The loop over the loans found. Each loan with an update is saved on its own, so the
  loop is a pass over the collection that replaces such a document where it stands; a
  save that fails validation throws, which ends the loop with the earlier saves done.
  The first component is the failure or \<open>updatedCount\<close>.
\<close>

fun sweep :: "jsdate \<Rightarrow> loan list \<Rightarrow> (error + nat) \<times> loan list" where
  "sweep today [] = (Inr 0, [])"
| "sweep today (loan # rest) =
     (if in_sweep loan \<and> list_ex (is_due today) (l_emiSchedule loan)
      then
        let loan1 = loan\<lparr>l_emiSchedule := map (mark_emi today) (l_emiSchedule loan),
                         l_status := LoanOverdue\<rparr>
        in if loan_valid loan1
           then (case sweep today rest of (r, rest1) \<Rightarrow> (map_sum id Suc r, loan1 # rest1))
           else (Inl ValidationError, loan # rest)
      else (case sweep today rest of (r, rest1) \<Rightarrow> (r, loan # rest1)))"

definition markOverdueEmis :: "jsdate \<Rightarrow> db \<Rightarrow> (error + nat) \<times> db" where
  "markOverdueEmis now s =
     (case sweep (now\<lparr>msec := 0\<rparr>) (loans s) of (r, ls) \<Rightarrow> (r, s\<lparr>loans := ls\<rparr>))"

section \<open>The loan model: the EMI schedule\<close>

text \<open>
  \<open>Math.round\<close> rounds to the nearest integer, a half towards plus infinity;
  \<open>Math.round(x * 100) / 100\<close> is the rounding to two decimals of the schedule.
\<close>

definition js_round :: "real \<Rightarrow> real" where
  "js_round x = of_int \<lfloor>x + 1 / 2\<rfloor>"

definition round2 :: "real \<Rightarrow> real" where
  "round2 x = js_round (x * 100) / 100"

text \<open>
  \<open>Date.prototype.setMonth\<close> on a month number that is not negative: the year
  moves by the whole years in it, the day of the month is kept, and a day the target
  month does not have runs over into the month after it (31 January set to month 1 is 3
  March, or 2 March in a leap year). The time within the day stays.
\<close>

definition leap_year :: "int \<Rightarrow> bool" where
  "leap_year y \<longleftrightarrow> y mod 4 = 0 \<and> (y mod 100 \<noteq> 0 \<or> y mod 400 = 0)"

definition days_in_month :: "int \<Rightarrow> nat \<Rightarrow> nat" where
  "days_in_month y m =
     (if m = 1 then (if leap_year y then 29 else 28)
      else if m = 3 \<or> m = 5 \<or> m = 8 \<or> m = 10 then 30
      else 31)"

definition setMonth :: "jsdate \<Rightarrow> nat \<Rightarrow> jsdate" where
  "setMonth d m =
     (let y = year d + int (m div 12);
          mn = m mod 12;
          dim = days_in_month y mn
      in if day d \<le> dim then d\<lparr>year := y, month := mn\<rparr>
         else if mn = 11 then d\<lparr>year := y + 1, month := 0, day := day d - dim\<rparr>
         else d\<lparr>year := y, month := mn + 1, day := day d - dim\<rparr>)"

text \<open>
  generateEmiSchedule: the loop \<open>for (let i = 1; i <= this.tenure; i++)\<close> with its
  running balance, and the method that stores the schedule on the loan. Here the tenure is
  a whole number and the arithmetic does not round; \<open>emi_loop_ieee\<close> below is the
  loop in the arithmetic of the code, for any tenure.
\<close>

function emi_loop :: "loan \<Rightarrow> real \<Rightarrow> nat \<Rightarrow> real \<Rightarrow> emi list" where
  "emi_loop loan monthlyRate i balance =
     (if i \<le> l_tenure loan
      then
        let interest = balance * monthlyRate;
            principal = l_emiAmount loan - interest;
            dueDate = setMonth (l_disbursedAt loan) (month (l_disbursedAt loan) + i)
        in \<lparr>e_emiNumber = i, e_dueDate = dueDate,
            e_principal = round2 principal, e_interest = round2 interest,
            e_totalAmount = round2 (l_emiAmount loan), e_status = Pending,
            e_paidAmount = 0, e_paidDate = None, e_penaltyAmount = 0,
            e_paymentReference = None\<rparr>
           # emi_loop loan monthlyRate (i + 1) (balance - principal)
      else [])"
  by pat_completeness auto
termination
  by (relation "measure (\<lambda>(loan, monthlyRate, i, balance). Suc (l_tenure loan) - i)") auto

declare emi_loop.simps [simp del]

definition generateEmiSchedule :: "loan \<Rightarrow> loan" where
  "generateEmiSchedule loan =
     loan\<lparr>l_emiSchedule :=
       emi_loop loan (l_interestRate loan / 12 / 100) 1 (l_disbursedAmount loan)\<rparr>"

subsection \<open>The schedule in the arithmetic of the code\<close>

text \<open>
  A JavaScript Number is an IEEE 754 double, here a finite one, and an arithmetic operation
  gives the exact result rounded to the nearest double, a tie to the one with the even
  significand.
  \<open>pow2 e\<close> is 2 to the power \<open>e\<close>. The doubles of magnitude between \<open>pow2 e\<close> and
  \<open>pow2 (e + 1)\<close> are the multiples of \<open>pow2 (e - 52)\<close>; below \<open>pow2 (- 1022)\<close> they are
  the multiples of \<open>pow2 (- 1074)\<close>. \<open>to_double x\<close> is the double nearest to \<open>x\<close>, the
  result of an operation whose exact result is \<open>x\<close>, as long as \<open>x\<close> is at most
  \<open>max_double\<close> in magnitude: beyond the largest double an operation overflows to
  Infinity, which is not modelled.
\<close>

definition pow2 :: "int \<Rightarrow> real" where
  "pow2 e = (if 0 \<le> e then 2 ^ nat e else 1 / 2 ^ nat (- e))"

definition max_double :: real where
  "max_double = pow2 1024 - pow2 971"

definition round_half_even :: "real \<Rightarrow> int" where
  "round_half_even x =
     (if x - of_int \<lfloor>x\<rfloor> < 1 / 2 then \<lfloor>x\<rfloor>
      else if 1 / 2 < x - of_int \<lfloor>x\<rfloor> then \<lfloor>x\<rfloor> + 1
      else if even \<lfloor>x\<rfloor> then \<lfloor>x\<rfloor> else \<lfloor>x\<rfloor> + 1)"

definition binade :: "real \<Rightarrow> int" where
  "binade x = max \<lfloor>log 2 \<bar>x\<bar>\<rfloor> (- 1022)"

definition to_double :: "real \<Rightarrow> real" where
  "to_double x =
     (if x = 0 then 0
      else of_int (round_half_even (x / pow2 (binade x - 52))) * pow2 (binade x - 52))"

text \<open>
  generateEmiSchedule with the rounding of every operation written out. \<open>fl\<close> is the
  rounding of the arithmetic (\<open>to_double\<close> in the code); \<open>Math.round\<close> is exact. The
  tenure is a Number as well: the schema asks for \<open>min: 1\<close> and not for a whole number,
  and the loop \<open>for (let i = 1; i <= this.tenure; i++)\<close> makes as many entries as there
  are whole months in it. The function takes the five fields of the loan that the method
  reads.
\<close>

definition ieee_round2 :: "(real \<Rightarrow> real) \<Rightarrow> real \<Rightarrow> real" where
  "ieee_round2 fl x = fl (js_round (fl (x * 100)) / 100)"

function emi_loop_ieee ::
  "(real \<Rightarrow> real) \<Rightarrow> real \<Rightarrow> real \<Rightarrow> jsdate \<Rightarrow> real \<Rightarrow> nat \<Rightarrow> real \<Rightarrow> emi list" where
  "emi_loop_ieee fl tenure emi disbursedAt monthlyRate i balance =
     (if real i \<le> tenure
      then
        let interest = fl (balance * monthlyRate);
            principal = fl (emi - interest);
            dueDate = setMonth disbursedAt (month disbursedAt + i)
        in \<lparr>e_emiNumber = i, e_dueDate = dueDate,
            e_principal = ieee_round2 fl principal, e_interest = ieee_round2 fl interest,
            e_totalAmount = ieee_round2 fl emi, e_status = Pending,
            e_paidAmount = 0, e_paidDate = None, e_penaltyAmount = 0,
            e_paymentReference = None\<rparr>
           # emi_loop_ieee fl tenure emi disbursedAt monthlyRate (i + 1)
               (fl (balance - principal))
      else [])"
  by pat_completeness auto
termination
  by (relation "measure (\<lambda>(fl, tenure, emi, disbursedAt, monthlyRate, i, balance).
                  Suc (nat \<lfloor>tenure\<rfloor>) - i)")
     (auto dest: le_nat_floor)

declare emi_loop_ieee.simps [simp del]

definition monthly_rate :: "(real \<Rightarrow> real) \<Rightarrow> real \<Rightarrow> real" where
  "monthly_rate fl interestRate = fl (fl (interestRate / 12) / 100)"

definition generateEmiSchedule_ieee ::
  "(real \<Rightarrow> real) \<Rightarrow> real \<Rightarrow> real \<Rightarrow> real \<Rightarrow> real \<Rightarrow> jsdate \<Rightarrow> emi list" where
  "generateEmiSchedule_ieee fl interestRate tenure emiAmount disbursedAmount disbursedAt =
     emi_loop_ieee fl tenure emiAmount disbursedAt (monthly_rate fl interestRate) 1
       disbursedAmount"

section \<open>The application controller\<close>

text \<open>
  The value of a JavaScript division: a finite quotient, an infinity when only the
  divisor is zero, NaN for zero by zero.
\<close>

datatype jsnum = Fin real | PosInf | NegInf | NaN

definition js_div :: "real \<Rightarrow> real \<Rightarrow> jsnum" where
  "js_div a b =
     (if b \<noteq> 0 then Fin (a / b)
      else if a = 0 then NaN
      else if 0 < a then PosInf else NegInf)"

fun js_round2 :: "jsnum \<Rightarrow> jsnum" where
  "js_round2 (Fin x) = Fin (round2 x)"
| "js_round2 PosInf = PosInf"
| "js_round2 NegInf = NegInf"
| "js_round2 NaN = NaN"

text \<open>The EMI of createLoanFromApplication, "using standard formula".\<close>

definition calculate_emi :: "real \<Rightarrow> real \<Rightarrow> nat \<Rightarrow> jsnum" where
  "calculate_emi amount monthlyRate tenure =
     js_div (amount * monthlyRate * (1 + monthlyRate) ^ tenure)
            ((1 + monthlyRate) ^ tenure - 1)"

text \<open>\<open>a || b\<close> on an optional number: zero and a missing value are falsy.\<close>

definition or_else :: "real option \<Rightarrow> real \<Rightarrow> real" where
  "or_else a b = (case a of Some x \<Rightarrow> if x \<noteq> 0 then x else b | None \<Rightarrow> b)"

text \<open>
  \<open>Collateral.updateMany({ _id: { $in: ids } }, { linkedLoan: loan._id })\<close>, the
  collateral update of createLoanFromApplication.
\<close>

definition link_to_loan :: "oid list \<Rightarrow> oid \<Rightarrow> collateral list \<Rightarrow> collateral list" where
  "link_to_loan ids lid cs =
     map (\<lambda>c. if c_id c \<in> set ids then c\<lparr>c_linkedLoan := Some lid\<rparr> else c) cs"

text \<open>
  createLoanFromApplication. \<open>newId\<close> is the ObjectId of the new loan,
  \<open>new_loan\<close> the document \<open>new Loan({...})\<close> builds (the fields it does not
  name take the defaults of the schema), \<open>set_nextEmiDate\<close> the step
  \<open>if (loan.emiSchedule.length > 0) loan.nextEmiDate = loan.emiSchedule[0].dueDate\<close>.
\<close>

definition new_loan ::
  "jsdate \<Rightarrow> oid \<Rightarrow> application \<Rightarrow> application \<Rightarrow> oid list \<Rightarrow> real \<Rightarrow> real \<Rightarrow> loan" where
  "new_loan now newId application populatedApp ids amount emiAmount =
     \<lparr>l_id = newId, l_application = a_id application,
      l_loanProduct = a_loanProduct populatedApp,
      l_disbursedAmount = amount, l_outstandingAmount = amount,
      l_tenure = a_tenure populatedApp, l_interestRate = a_interestRate populatedApp,
      l_emiAmount = emiAmount, l_nextEmiDate = None, l_collaterals = ids,
      l_totalCollateralValue = a_totalCollateralValue populatedApp,
      l_currentLTV = a_ltv populatedApp, l_status = Active, l_emiSchedule = [],
      l_totalPrincipalPaid = 0, l_totalInterestPaid = 0, l_disbursedAt = now,
      l_closedAt = None, l_closureReason = None\<rparr>"

definition set_nextEmiDate :: "loan \<Rightarrow> loan" where
  "set_nextEmiDate loan =
     (case l_emiSchedule loan of
        [] \<Rightarrow> loan
      | e # _ \<Rightarrow> loan\<lparr>l_nextEmiDate := Some (e_dueDate e)\<rparr>)"

text \<open>
  The populated application is read back from the database; a product that no longer
  exists populates as null, and reading its \<open>_id\<close> throws. A loan whose emiAmount is
  NaN does not cast to a Number, and one that misses a minimum of the schema does not
  validate: the save throws, before any collateral is touched. (The quotient is infinite
  only for a tenure of 0 or a negative rate, which the schema rejects as well.)
\<close>

definition createLoanFromApplication ::
  "jsdate \<Rightarrow> oid \<Rightarrow> application \<Rightarrow> db \<Rightarrow> (error + loan) \<times> db" where
  "createLoanFromApplication now newId application s =
     (case find (\<lambda>a. a_id a = a_id application) (applications s) of
        None \<Rightarrow> (Inl TypeError, s)
      | Some populatedApp \<Rightarrow>
          let amount = or_else (a_approvedAmount populatedApp) (a_requestedAmount populatedApp);
              monthlyRate = a_interestRate populatedApp / 12 / 100;
              tenure = a_tenure populatedApp;
              emi = calculate_emi amount monthlyRate tenure;
              ids = filter (\<lambda>i. i \<in> c_id ` set (collaterals s)) (a_collaterals populatedApp)
          in if a_loanProduct populatedApp \<notin> set (products s) then (Inl TypeError, s)
             else
               (case js_round2 emi of
                  Fin emiAmount \<Rightarrow>
                    let loan = set_nextEmiDate (generateEmiSchedule
                                 (new_loan now newId application populatedApp ids amount emiAmount))
                    in if loan_valid loan
                       then (Inr loan,
                             s\<lparr>loans := loans s @ [loan],
                               collaterals := link_to_loan ids newId (collaterals s)\<rparr>)
                       else (Inl ValidationError, s)
                | _ \<Rightarrow> (Inl ValidationError, s)))"

text \<open>The table of updateApplicationStatus, over the status names a request carries.\<close>

fun app_status_name :: "app_status \<Rightarrow> string" where
  "app_status_name Draft = ''draft''"
| "app_status_name Submitted = ''submitted''"
| "app_status_name Under_review = ''under_review''"
| "app_status_name Approved = ''approved''"
| "app_status_name Rejected = ''rejected''"
| "app_status_name Disbursed = ''disbursed''"
| "app_status_name AppClosed = ''closed''"

definition app_statuses :: "app_status list" where
  "app_statuses = [Draft, Submitted, Under_review, Approved, Rejected, Disbursed, AppClosed]"

fun validTransitions :: "app_status \<Rightarrow> string list" where
  "validTransitions Draft = [''submitted'']"
| "validTransitions Submitted = [''under_review'', ''rejected'']"
| "validTransitions Under_review = [''approved'', ''rejected'']"
| "validTransitions Approved = [''disbursed'', ''rejected'']"
| "validTransitions Rejected = []"
| "validTransitions Disbursed = [''closed'']"
| "validTransitions AppClosed = []"

text \<open>
  The schema of an application: \<open>min: [0, ...]\<close> on requestedAmount, approvedAmount
  and interestRate, \<open>min: [1, ...]\<close> on tenure. Its pre-save hook recomputes the LTV.
\<close>

definition app_valid :: "application \<Rightarrow> bool" where
  "app_valid a \<longleftrightarrow>
     0 \<le> a_requestedAmount a \<and>
     (case a_approvedAmount a of None \<Rightarrow> True | Some x \<Rightarrow> 0 \<le> x) \<and>
     1 \<le> a_tenure a \<and> 0 \<le> a_interestRate a"

definition pre_save :: "application \<Rightarrow> application" where
  "pre_save a =
     (if 0 < a_totalCollateralValue a
      then a\<lparr>a_ltv := a_requestedAmount a / a_totalCollateralValue a * 100\<rparr>
      else a)"

definition put_application :: "application \<Rightarrow> application list \<Rightarrow> application list" where
  "put_application a as = map (\<lambda>x. if a_id x = a_id a then a else x) as"

text \<open>
  \<open>Collateral.updateMany({ linkedApplication: application._id }, { lienStatus:
  'released', lienReleasedDate: new Date(), linkedApplication: null })\<close>, the release on
  rejection.
\<close>

definition release_by_application :: "jsdate \<Rightarrow> oid \<Rightarrow> collateral list \<Rightarrow> collateral list" where
  "release_by_application now aid cs =
     map (\<lambda>c. if c_linkedApplication c = Some aid
               then c\<lparr>c_lienStatus := Released, c_lienReleasedDate := Some now,
                      c_linkedApplication := None\<rparr>
               else c) cs"

text \<open>
  updateApplicationStatus. The request carries the status name, the remarks and the
  approved amount; \<open>remarks || application.remarks\<close> keeps the old remarks for a
  missing or empty string (the trimming of the stored remarks is not modelled). The
  \<open>switch\<close> stamps the date of the stage and does its work, the save validates.
\<close>

definition stage ::
  "jsdate \<Rightarrow> oid \<Rightarrow> app_status \<Rightarrow> real option \<Rightarrow> application \<Rightarrow> db \<Rightarrow> (error + application) \<times> db" where
  "stage now newId st approvedAmount application s =
     (case st of
        Submitted \<Rightarrow> (Inr (application\<lparr>a_submittedAt := Some now\<rparr>), s)
      | Approved \<Rightarrow>
          (Inr (application\<lparr>a_approvedAt := Some now,
                  a_approvedAmount :=
                    Some (or_else approvedAmount (a_requestedAmount application))\<rparr>), s)
      | Rejected \<Rightarrow>
          (Inr (application\<lparr>a_rejectedAt := Some now\<rparr>),
           s\<lparr>collaterals := release_by_application now (a_id application) (collaterals s)\<rparr>)
      | Disbursed \<Rightarrow>
          (case createLoanFromApplication now newId application s of
             (Inl e, s1) \<Rightarrow> (Inl e, s1)
           | (Inr loan, s1) \<Rightarrow> (Inr (application\<lparr>a_disbursedAt := Some now\<rparr>), s1))
      | AppClosed \<Rightarrow> (Inr (application\<lparr>a_closedAt := Some now\<rparr>), s)
      | _ \<Rightarrow> (Inr application, s))"

definition updateApplicationStatus ::
  "jsdate \<Rightarrow> oid \<Rightarrow> oid \<Rightarrow> string \<Rightarrow> string option \<Rightarrow> real option \<Rightarrow> db
    \<Rightarrow> (error + application) \<times> db" where
  "updateApplicationStatus now newId appId status remarks approvedAmount s =
     (case find (\<lambda>a. a_id a = appId) (applications s) of
        None \<Rightarrow> (Inl ApplicationNotFound, s)
      | Some application \<Rightarrow>
          if status \<notin> set (validTransitions (a_status application))
          then (Inl InvalidTransition, s)
          else
            (case find (\<lambda>st. app_status_name st = status) app_statuses of
               None \<Rightarrow> (Inl ValidationError, s)
             | Some st \<Rightarrow>
                 let application1 = application\<lparr>
                       a_status := st,
                       a_remarks := (case remarks of
                                       Some r \<Rightarrow> if r \<noteq> [] then Some r else a_remarks application
                                     | None \<Rightarrow> a_remarks application)\<rparr>
                 in (case stage now newId st approvedAmount application1 s of
                       (Inl e, s1) \<Rightarrow> (Inl e, s1)
                     | (Inr application2, s1) \<Rightarrow>
                         let application3 = pre_save application2
                         in if app_valid application3
                            then (Inr application3,
                                  s1\<lparr>applications :=
                                       put_application application3 (applications s1)\<rparr>)
                            else (Inl ValidationError, s1))))"

section \<open>The collateral controller: marking and releasing a lien\<close>

definition put_collateral :: "collateral \<Rightarrow> collateral list \<Rightarrow> collateral list" where
  "put_collateral c cs = map (\<lambda>x. if c_id x = c_id c then c else x) cs"

text \<open>The pre-save hook of a collateral recomputes its value; its minimums are on units and NAV.\<close>

definition collateral_save :: "collateral \<Rightarrow> db \<Rightarrow> (error + collateral) \<times> db" where
  "collateral_save c s =
     (let c1 = c\<lparr>c_currentValue := c_units c * c_navPerUnit c\<rparr>
      in if 0 \<le> c_units c1 \<and> 0 \<le> c_navPerUnit c1
         then (Inr c1, s\<lparr>collaterals := put_collateral c1 (collaterals s)\<rparr>)
         else (Inl ValidationError, s))"

definition markLien :: "jsdate \<Rightarrow> oid \<Rightarrow> oid option \<Rightarrow> db \<Rightarrow> (error + collateral) \<times> db" where
  "markLien now collateralId applicationId s =
     (case find (\<lambda>c. c_id c = collateralId) (collaterals s) of
        None \<Rightarrow> (Inl CollateralNotFound, s)
      | Some collateral \<Rightarrow>
          if c_lienStatus collateral = Marked then (Inl AlreadyMarked, s)
          else
            let c1 = collateral\<lparr>c_lienStatus := Marked, c_lienMarkedDate := Some now\<rparr>;
                c2 = (case applicationId of
                        Some a \<Rightarrow> c1\<lparr>c_linkedApplication := Some a\<rparr>
                      | None \<Rightarrow> c1)
            in collateral_save c2 s)"

definition releaseLien :: "jsdate \<Rightarrow> oid \<Rightarrow> db \<Rightarrow> (error + collateral) \<times> db" where
  "releaseLien now collateralId s =
     (case find (\<lambda>c. c_id c = collateralId) (collaterals s) of
        None \<Rightarrow> (Inl CollateralNotFound, s)
      | Some collateral \<Rightarrow>
          if c_lienStatus collateral \<noteq> Marked then (Inl NotMarked, s)
          else if (case c_linkedLoan collateral of
                     None \<Rightarrow> False
                   | Some lid \<Rightarrow>
                       (case find (\<lambda>l. l_id l = lid) (loans s) of
                          None \<Rightarrow> False
                        | Some loan \<Rightarrow> l_status loan = Active))
          then (Inl ActiveLoanBlock, s)
          else collateral_save
                 (collateral\<lparr>c_lienStatus := Released, c_lienReleasedDate := Some now,
                    c_linkedApplication := None, c_linkedLoan := None\<rparr>) s)"

section \<open>Specification predicates and auxiliary functions\<close>

text \<open>
  The fields of a loan that a payment settles, and a loan with the paid amounts of its
  schedule blanked.
\<close>

definition ledger ::
  "loan \<Rightarrow> real \<times> real \<times> real \<times> real \<times> jsdate option \<times> loan_status" where
  "ledger l =
     (l_outstandingAmount l, l_totalPrincipalPaid l, l_totalInterestPaid l,
      l_currentLTV l, l_nextEmiDate l, l_status l)"

definition forget_paidAmount :: "loan \<Rightarrow> loan" where
  "forget_paidAmount l =
     l\<lparr>l_emiSchedule := map (\<lambda>e. e\<lparr>e_paidAmount := 0\<rparr>) (l_emiSchedule l)\<rparr>"

text \<open>
  A loan with the paid amount of one schedule entry blanked: the entry with the EMI number
  of a payment, on the loan with the id of the payment.
\<close>

definition forget_payment :: "oid \<Rightarrow> nat \<Rightarrow> loan \<Rightarrow> loan" where
  "forget_payment loanId emiNumber l =
     (if l_id l = loanId
      then (case findIndex (\<lambda>e. e_emiNumber e = emiNumber) (l_emiSchedule l) of
              None \<Rightarrow> l
            | Some i \<Rightarrow>
                l\<lparr>l_emiSchedule :=
                    (l_emiSchedule l)[i := (l_emiSchedule l ! i)\<lparr>e_paidAmount := 0\<rparr>]\<rparr>)
      else l)"

text \<open>The loan recordPayment saves, from the schedule with the EMI marked paid.\<close>

definition settle :: "jsdate \<Rightarrow> emi list \<Rightarrow> emi \<Rightarrow> loan \<Rightarrow> loan" where
  "settle now schedule emi loan =
     overdue_check (if fully_paid (update_totals schedule emi loan)
                    then close_loan now (update_totals schedule emi loan)
                    else update_totals schedule emi loan)"

text \<open>The transition table as the specification words it.\<close>

definition allowed_transition :: "app_status \<Rightarrow> string \<Rightarrow> bool" where
  "allowed_transition fromState attemptedState \<longleftrightarrow>
     (fromState = Draft \<and> attemptedState = ''submitted'') \<or>
     (fromState = Submitted \<and>
        (attemptedState = ''under_review'' \<or> attemptedState = ''rejected'')) \<or>
     (fromState = Under_review \<and>
        (attemptedState = ''approved'' \<or> attemptedState = ''rejected'')) \<or>
     (fromState = Approved \<and>
        (attemptedState = ''disbursed'' \<or> attemptedState = ''rejected'')) \<or>
     (fromState = Disbursed \<and> attemptedState = ''closed'')"

text \<open>
  The exclusive-pledge invariant as the specification words it: at most one link is set,
  the lien is marked iff exactly one link is set, and it is none or released iff no link
  is set.
\<close>

definition exclusive_pledge :: "collateral \<Rightarrow> bool" where
  "exclusive_pledge c \<longleftrightarrow>
     \<not> (c_linkedApplication c \<noteq> None \<and> c_linkedLoan c \<noteq> None) \<and>
     ((c_lienStatus c = Marked) =
        ((c_linkedApplication c \<noteq> None) \<noteq> (c_linkedLoan c \<noteq> None))) \<and>
     ((c_lienStatus c = LienNone \<or> c_lienStatus c = Released) =
        (c_linkedApplication c = None \<and> c_linkedLoan c = None))"

text \<open>
  The calendar month a date lies in, counted from year 0, and the reading of "each due
  date is one calendar month after the previous one" that asks least: the month of every
  date is the month after that of its predecessor.
\<close>

definition month_index :: "jsdate \<Rightarrow> int" where
  "month_index d = year d * 12 + int (month d)"

fun monthly_steps :: "jsdate \<Rightarrow> jsdate list \<Rightarrow> bool" where
  "monthly_steps prev [] = True"
| "monthly_steps prev (d # ds) = (month_index d = month_index prev + 1 \<and> monthly_steps d ds)"

text \<open>
  The running balance of the schedule loop after \<open>n\<close> installments, and the sum of
  the rounded principal components of \<open>n\<close> installments, in arithmetic that does not
  round to doubles.
\<close>

fun balance_after :: "real \<Rightarrow> real \<Rightarrow> nat \<Rightarrow> real \<Rightarrow> real" where
  "balance_after r emi 0 b = b"
| "balance_after r emi (Suc n) b = balance_after r emi n (b - (emi - b * r))"


text \<open>
  What the bounds below use of the rounding \<open>fl\<close> of an arithmetic: within the range of a
  double it moves a result by at most \<open>pow2 (- 53)\<close> of its magnitude (half a unit in the
  last place), or by \<open>pow2 (- 1075)\<close> among the subnormal doubles. \<open>exact\<close> is the
  arithmetic that does not round.
\<close>

definition double_rounding :: "(real \<Rightarrow> real) \<Rightarrow> bool" where
  "double_rounding fl \<longleftrightarrow>
     (\<forall>x. \<bar>x\<bar> \<le> max_double \<longrightarrow> \<bar>fl x - x\<bar> \<le> \<bar>x\<bar> * pow2 (- 53) + pow2 (- 1075))"

definition exact :: "real \<Rightarrow> real" where
  "exact x = x"







text \<open>Every loan of the database meets the minimums of its schema.\<close>

definition loans_valid :: "db \<Rightarrow> bool" where
  "loans_valid s \<longleftrightarrow> list_all loan_valid (loans s)"

section \<open>Example data\<close>

text \<open>
  An approved application over 1200 at 12 percent for two months, its pledged
  collateral, and the database states its disbursal on 31 January 2025 and the payment
  of its first EMI lead to.
\<close>

definition demo_date :: jsdate where
  "demo_date = \<lparr>year = 2025, month = 0, day = 31, msec = 36000000\<rparr>"

definition demo_collateral :: collateral where
  "demo_collateral = \<lparr>c_id = 10, c_folioNumber = ''F1'', c_units = 100, c_navPerUnit = 24,
     c_currentValue = 2400, c_lienStatus = Marked, c_lienMarkedDate = Some demo_date,
     c_lienReleasedDate = None, c_linkedApplication = Some 1, c_linkedLoan = None\<rparr>"

definition demo_application :: application where
  "demo_application = \<lparr>a_id = 1, a_loanProduct = 7, a_requestedAmount = 1200,
     a_approvedAmount = Some 1200, a_tenure = 2, a_interestRate = 12, a_collaterals = [10],
     a_totalCollateralValue = 2400, a_ltv = 50, a_status = Approved, a_remarks = None,
     a_submittedAt = Some demo_date, a_approvedAt = Some demo_date, a_rejectedAt = None,
     a_disbursedAt = None, a_closedAt = None\<rparr>"

definition demo_db :: db where
  "demo_db = \<lparr>collaterals = [demo_collateral], applications = [demo_application],
     loans = [], products = [7]\<rparr>"

definition demo_emi1 :: emi where
  "demo_emi1 = \<lparr>e_emiNumber = 1,
     e_dueDate = \<lparr>year = 2025, month = 2, day = 3, msec = 36000000\<rparr>,
     e_principal = 59701 / 100, e_interest = 12, e_totalAmount = 60901 / 100,
     e_status = Pending, e_paidAmount = 0, e_paidDate = None, e_penaltyAmount = 0,
     e_paymentReference = None\<rparr>"

definition demo_emi2 :: emi where
  "demo_emi2 = \<lparr>e_emiNumber = 2,
     e_dueDate = \<lparr>year = 2025, month = 2, day = 31, msec = 36000000\<rparr>,
     e_principal = 60298 / 100, e_interest = 603 / 100, e_totalAmount = 60901 / 100,
     e_status = Pending, e_paidAmount = 0, e_paidDate = None, e_penaltyAmount = 0,
     e_paymentReference = None\<rparr>"

definition demo_loan :: loan where
  "demo_loan = \<lparr>l_id = 100, l_application = 1, l_loanProduct = 7,
     l_disbursedAmount = 1200, l_outstandingAmount = 1200, l_tenure = 2,
     l_interestRate = 12, l_emiAmount = 60901 / 100,
     l_nextEmiDate = Some \<lparr>year = 2025, month = 2, day = 3, msec = 36000000\<rparr>,
     l_collaterals = [10], l_totalCollateralValue = 2400, l_currentLTV = 50,
     l_status = Active, l_emiSchedule = [demo_emi1, demo_emi2],
     l_totalPrincipalPaid = 0, l_totalInterestPaid = 0, l_disbursedAt = demo_date,
     l_closedAt = None, l_closureReason = None\<rparr>"

definition demo_created :: db where
  "demo_created = \<lparr>collaterals = [demo_collateral\<lparr>c_linkedLoan := Some 100\<rparr>],
     applications = [demo_application], loans = [demo_loan], products = [7]\<rparr>"

definition demo_disbursed :: db where
  "demo_disbursed = \<lparr>collaterals = [demo_collateral\<lparr>c_linkedLoan := Some 100\<rparr>],
     applications =
       [demo_application\<lparr>a_status := Disbursed, a_disbursedAt := Some demo_date\<rparr>],
     loans = [demo_loan], products = [7]\<rparr>"

definition demo_loan_paid1 :: loan where
  "demo_loan_paid1 = demo_loan\<lparr>
     l_emiSchedule :=
       [demo_emi1\<lparr>e_status := Paid, e_paidAmount := 60901 / 100,
                   e_paidDate := Some demo_date, e_paymentReference := Some ''UTR1''\<rparr>,
        demo_emi2],
     l_outstandingAmount := 60299 / 100, l_totalPrincipalPaid := 59701 / 100,
     l_totalInterestPaid := 12,
     l_nextEmiDate := Some \<lparr>year = 2025, month = 2, day = 31, msec = 36000000\<rparr>,
     l_currentLTV := 60299 / 2400\<rparr>"

definition demo_paid1 :: db where
  "demo_paid1 = demo_disbursed\<lparr>loans := [demo_loan_paid1]\<rparr>"

text \<open>The same application at an interest rate of 0 percent.\<close>

definition zero_rate_db :: db where
  "zero_rate_db = demo_db\<lparr>applications := [demo_application\<lparr>a_interestRate := 0\<rparr>]\<rparr>"

text \<open>A loan of 100000 at 48 percent over 48 months, with the EMI the formula gives.\<close>

definition loan48 :: loan where
  "loan48 = \<lparr>l_id = 200, l_application = 2, l_loanProduct = 7,
     l_disbursedAmount = 100000, l_outstandingAmount = 100000, l_tenure = 48,
     l_interestRate = 48, l_emiAmount = 471806 / 100, l_nextEmiDate = None,
     l_collaterals = [], l_totalCollateralValue = 0, l_currentLTV = 0,
     l_status = Active, l_emiSchedule = [], l_totalPrincipalPaid = 0,
     l_totalInterestPaid = 0,
     l_disbursedAt = \<lparr>year = 2025, month = 0, day = 15, msec = 0\<rparr>,
     l_closedAt = None, l_closureReason = None\<rparr>"

text \<open>
  An approved application over 500 at 12 percent for two months, the database after its
  disbursal, and the database after the payment of its first EMI.
\<close>

definition tight_collateral :: collateral where
  "tight_collateral = \<lparr>c_id = 11, c_folioNumber = ''F2'', c_units = 100, c_navPerUnit = 10,
     c_currentValue = 1000, c_lienStatus = Marked, c_lienMarkedDate = Some demo_date,
     c_lienReleasedDate = None, c_linkedApplication = Some 2, c_linkedLoan = None\<rparr>"

definition tight_application :: application where
  "tight_application = \<lparr>a_id = 2, a_loanProduct = 7, a_requestedAmount = 500,
     a_approvedAmount = Some 500, a_tenure = 2, a_interestRate = 12, a_collaterals = [11],
     a_totalCollateralValue = 1000, a_ltv = 50, a_status = Approved, a_remarks = None,
     a_submittedAt = Some demo_date, a_approvedAt = Some demo_date, a_rejectedAt = None,
     a_disbursedAt = None, a_closedAt = None\<rparr>"

definition tight_db :: db where
  "tight_db = \<lparr>collaterals = [tight_collateral], applications = [tight_application],
     loans = [], products = [7]\<rparr>"

definition tight_disbursed :: db where
  "tight_disbursed =
     snd (updateApplicationStatus demo_date 101 2 ''disbursed'' None None tight_db)"

definition tight_paid1 :: db where
  "tight_paid1 =
     snd (recordPayment demo_date 101 1 (25376 / 100) None None tight_disbursed)"

section \<open>Evaluation on the example data\<close>

lemmas demo_defs =
  demo_db_def demo_application_def demo_collateral_def demo_date_def demo_emi1_def
  demo_emi2_def demo_loan_def demo_created_def demo_disbursed_def demo_loan_paid1_def
  demo_paid1_def zero_rate_db_def

lemmas disbursal_defs =
  updateApplicationStatus_def app_statuses_def stage_def createLoanFromApplication_def
  new_loan_def set_nextEmiDate_def or_else_def calculate_emi_def js_div_def round2_def
  js_round_def generateEmiSchedule_def Let_def setMonth_def days_in_month_def
  leap_year_def loan_valid_def link_to_loan_def pre_save_def app_valid_def
  put_application_def emi_loop.simps power_divide

lemmas payment_defs =
  recordPayment_def pay_emi_def update_totals_def fully_paid_def close_loan_def
  overdue_check_def loan_valid_def put_loan_def release_by_loan_def Let_def

lemma demo_creation:
  "createLoanFromApplication demo_date 100 demo_application demo_db =
     (Inr demo_loan, demo_created)"
  by (simp add: demo_defs disbursal_defs)

lemma demo_disbursal:
  "updateApplicationStatus demo_date 100 1 ''disbursed'' None None demo_db =
     (Inr (demo_application\<lparr>a_status := Disbursed, a_disbursedAt := Some demo_date\<rparr>),
      demo_disbursed)"
  by (simp add: demo_defs disbursal_defs)

lemma demo_payment1:
  "recordPayment demo_date 100 1 (60901 / 100) (Some ''UTR1'') None demo_disbursed =
     (Inr demo_loan_paid1, demo_paid1)"
  by (simp add: demo_defs payment_defs)

section \<open>Properties of the loan controller\<close>

subsection \<open>A payment for an EMI that is already paid\<close>

text \<open>
  Claim C7. For a loan that is not closed and an EMI number whose schedule entry (the one
  the lookup finds) is paid, recordPayment answers AlreadyPaid and leaves the whole
  database as it was: no balance, total, LTV, date, status or schedule entry changes.
\<close>

theorem recordPayment_already_paid:
  assumes "find (\<lambda>l. l_id l = loanId) (loans s) = Some loan"
      and "l_status loan \<noteq> LoanClosed"
      and "findIndex (\<lambda>e. e_emiNumber e = emiNumber) (l_emiSchedule loan) = Some i"
      and "e_status (l_emiSchedule loan ! i) = Paid"
  shows "recordPayment now loanId emiNumber amount paymentReference paymentDate s =
           (Inl AlreadyPaid, s)"
  using assms by (simp add: recordPayment_def)

text \<open>The first EMI of the example loan, paid a second time.\<close>

theorem recordPayment_already_paid_witness:
  "find (\<lambda>l. l_id l = 100) (loans demo_paid1) = Some demo_loan_paid1 \<and>
   l_status demo_loan_paid1 \<noteq> LoanClosed \<and>
   findIndex (\<lambda>e. e_emiNumber e = 1) (l_emiSchedule demo_loan_paid1) = Some 0 \<and>
   e_status (l_emiSchedule demo_loan_paid1 ! 0) = Paid \<and>
   recordPayment demo_date 100 1 (60901 / 100) (Some ''UTR9'') None demo_paid1 =
     (Inl AlreadyPaid, demo_paid1)"
  using recordPayment_already_paid [of 100 demo_paid1 demo_loan_paid1 1 0 demo_date
      "60901 / 100" "Some ''UTR9''" None]
  by (simp add: demo_defs)

subsection \<open>The paid amount does not reach the balances\<close>

lemma find_pending_forget:
  "find (\<lambda>e. e_status e = Pending) (map (\<lambda>e. e\<lparr>e_paidAmount := 0\<rparr>) es) =
   map_option (\<lambda>e. e\<lparr>e_paidAmount := 0\<rparr>) (find (\<lambda>e. e_status e = Pending) es)"
  by (induction es) simp_all

lemma ex_overdue_forget:
  "list_ex (\<lambda>e. e_status e = Overdue) (map (\<lambda>e. e\<lparr>e_paidAmount := 0\<rparr>) es) =
   list_ex (\<lambda>e. e_status e = Overdue) es"
  by (induction es) simp_all

lemma forget_update_totals:
  "forget_paidAmount (update_totals sch e l) =
   update_totals (map (\<lambda>e. e\<lparr>e_paidAmount := 0\<rparr>) sch) e (forget_paidAmount l)"
  by (simp add: forget_paidAmount_def update_totals_def Let_def find_pending_forget
      option.map_comp comp_def)

lemma fully_paid_forget: "fully_paid (forget_paidAmount l) = fully_paid l"
  by (simp add: fully_paid_def forget_paidAmount_def find_pending_forget)

lemma forget_close_loan:
  "forget_paidAmount (close_loan now l) = close_loan now (forget_paidAmount l)"
  by (simp add: forget_paidAmount_def close_loan_def)

lemma forget_overdue_check:
  "forget_paidAmount (overdue_check l) = overdue_check (forget_paidAmount l)"
  by (simp add: forget_paidAmount_def overdue_check_def Let_def ex_overdue_forget)

lemma loan_valid_forget: "loan_valid (forget_paidAmount l) = loan_valid l"
  by (simp add: forget_paidAmount_def loan_valid_def)

lemma l_id_forget [simp]: "l_id (forget_paidAmount l) = l_id l"
  by (simp add: forget_paidAmount_def)

lemma ledger_forget: "ledger (forget_paidAmount l) = ledger l"
  by (simp add: forget_paidAmount_def ledger_def)

lemma forget_pay_emi:
  "map (\<lambda>e. e\<lparr>e_paidAmount := 0\<rparr>) (es[i := pay_emi a1 r d e]) =
   map (\<lambda>e. e\<lparr>e_paidAmount := 0\<rparr>) (es[i := pay_emi a2 r d e])"
  by (simp add: map_update pay_emi_def)

lemma forget_put_loan:
  "map forget_paidAmount (put_loan l ls) =
   put_loan (forget_paidAmount l) (map forget_paidAmount ls)"
  by (simp add: put_loan_def comp_def if_distrib cong: if_cong)

lemma forget_settle:
  "forget_paidAmount (settle now sch e l) =
   settle now (map (\<lambda>e. e\<lparr>e_paidAmount := 0\<rparr>) sch) e (forget_paidAmount l)"
  by (simp add: settle_def forget_overdue_check forget_close_loan fully_paid_forget
      forget_update_totals[symmetric])

lemma recordPayment_settle:
  assumes "find (\<lambda>l. l_id l = loanId) (loans s) = Some loan"
      and "l_status loan \<noteq> LoanClosed"
      and "findIndex (\<lambda>e. e_emiNumber e = emiNumber) (l_emiSchedule loan) = Some i"
      and "e_status (l_emiSchedule loan ! i) \<noteq> Paid"
  shows "recordPayment now loanId emiNumber amount ref pd s =
     (let emi = l_emiSchedule loan ! i;
          sch = (l_emiSchedule loan)
                  [i := pay_emi amount ref (case pd of Some d \<Rightarrow> d | None \<Rightarrow> now) emi];
          cols = (if fully_paid (update_totals sch emi loan)
                  then release_by_loan now (l_id loan) (collaterals s) else collaterals s);
          loan3 = settle now sch emi loan
      in if loan_valid loan3
         then (Inr loan3, s\<lparr>collaterals := cols, loans := put_loan loan3 (loans s)\<rparr>)
         else (Inl ValidationError, s\<lparr>collaterals := cols\<rparr>))"
  using assms by (simp add: recordPayment_def settle_def Let_def)

text \<open>
  What a payment that is recorded does to the balances: it moves them by the principal
  and the interest of the schedule entry.
\<close>

lemma recordPayment_deltas:
  assumes "find (\<lambda>l. l_id l = loanId) (loans s) = Some loan"
      and "l_status loan \<noteq> LoanClosed"
      and "findIndex (\<lambda>e. e_emiNumber e = emiNumber) (l_emiSchedule loan) = Some i"
      and "e_status (l_emiSchedule loan ! i) \<noteq> Paid"
      and "recordPayment now loanId emiNumber amount ref pd s = (Inr loan1, s1)"
  shows "l_outstandingAmount loan1 =
           l_outstandingAmount loan - e_principal (l_emiSchedule loan ! i) \<and>
         l_totalPrincipalPaid loan1 =
           l_totalPrincipalPaid loan + e_principal (l_emiSchedule loan ! i) \<and>
         l_totalInterestPaid loan1 =
           l_totalInterestPaid loan + e_interest (l_emiSchedule loan ! i)"
proof -
  have "l_outstandingAmount (settle now sch e loan) = l_outstandingAmount loan - e_principal e \<and>
        l_totalPrincipalPaid (settle now sch e loan) = l_totalPrincipalPaid loan + e_principal e \<and>
        l_totalInterestPaid (settle now sch e loan) = l_totalInterestPaid loan + e_interest e"
    for sch e
    by (simp add: settle_def overdue_check_def close_loan_def update_totals_def Let_def)
  with assms(5) show ?thesis
    unfolding recordPayment_settle[OF assms(1-4)]
    by (auto simp: Let_def split: if_splits)
qed

text \<open>
  The loan a payment saves differs between two amounts in the paid amount of the entry
  that is paid, and in nothing else.
\<close>

lemma findIndex_Some:
  "findIndex P xs = Some i \<Longrightarrow> i < length xs \<and> P (xs ! i)"
proof (induction xs arbitrary: i)
  case Nil
  then show ?case by simp
next
  case (Cons x xs)
  then show ?case by (cases "P x") (auto simp: nth_Cons')
qed

lemma findIndex_cong:
  "map P xs = map P ys \<Longrightarrow> findIndex P xs = findIndex P ys"
proof (induction xs arbitrary: ys)
  case Nil
  then show ?case by simp
next
  case (Cons x xs)
  then obtain y ys' where "ys = y # ys'" by (cases ys) auto
  with Cons show ?case by auto
qed

lemma findIndex_pay_emi:
  "findIndex (\<lambda>e. e_emiNumber e = n) (es[i := pay_emi a r d (es ! i)]) =
   findIndex (\<lambda>e. e_emiNumber e = n) es"
proof (rule findIndex_cong)
  show "map (\<lambda>e. e_emiNumber e = n) (es[i := pay_emi a r d (es ! i)]) =
        map (\<lambda>e. e_emiNumber e = n) es"
  proof (cases "i < length es")
    case True
    then have "map (\<lambda>e. e_emiNumber e = n) (es[i := pay_emi a r d (es ! i)]) =
               (map (\<lambda>e. e_emiNumber e = n) es)
                 [i := map (\<lambda>e. e_emiNumber e = n) es ! i]"
      by (simp add: map_update pay_emi_def)
    then show ?thesis by (simp only: list_update_id)
  next
    case False
    then show ?thesis by (simp add: list_update_beyond)
  qed
qed

lemma settle_schedule: "l_emiSchedule (settle now sch e l) = sch"
  by (simp add: settle_def overdue_check_def close_loan_def update_totals_def Let_def)

lemma settle_id: "l_id (settle now sch e l) = l_id l"
  by (simp add: settle_def overdue_check_def close_loan_def update_totals_def Let_def)

lemma forget_payment_settle:
  assumes "findIndex (\<lambda>e. e_emiNumber e = emiNumber) (l_emiSchedule loan) = Some i"
      and "l_id loan = loanId"
  shows "forget_payment loanId emiNumber
           (settle now ((l_emiSchedule loan)[i := pay_emi a1 ref d (l_emiSchedule loan ! i)])
              (l_emiSchedule loan ! i) loan) =
         forget_payment loanId emiNumber
           (settle now ((l_emiSchedule loan)[i := pay_emi a2 ref d (l_emiSchedule loan ! i)])
              (l_emiSchedule loan ! i) loan)"
proof -
  define es where "es = l_emiSchedule loan"
  define e where "e = es ! i"
  define L where "L a = settle now (es[i := pay_emi a ref d e]) e loan" for a
  have i: "i < length es"
    using findIndex_Some[OF assms(1)] by (simp add: es_def)
  have fi: "findIndex (\<lambda>e. e_emiNumber e = emiNumber) (es[i := pay_emi a ref d e]) = Some i" for a
    unfolding e_def findIndex_pay_emi using assms(1) by (simp add: es_def)
  have f: "forget_payment loanId emiNumber (L a) =
           (L a)\<lparr>l_emiSchedule := es[i := (pay_emi a ref d e)\<lparr>e_paidAmount := 0\<rparr>]\<rparr>" for a
    using i by (simp add: forget_payment_def L_def settle_schedule settle_id assms(2) fi)
  have fs: "map (\<lambda>e. e\<lparr>e_paidAmount := 0\<rparr>) (es[i := pay_emi a1 ref d e]) =
            map (\<lambda>e. e\<lparr>e_paidAmount := 0\<rparr>) (es[i := pay_emi a2 ref d e])"
    by (rule forget_pay_emi)
  have "forget_paidAmount (L a1) = forget_paidAmount (L a2)"
    unfolding L_def forget_settle fs ..
  then have "(forget_paidAmount (L a1))\<lparr>l_emiSchedule := X\<rparr> =
             (forget_paidAmount (L a2))\<lparr>l_emiSchedule := X\<rparr>" for X
    by simp
  then have g: "(L a1)\<lparr>l_emiSchedule := X\<rparr> = (L a2)\<lparr>l_emiSchedule := X\<rparr>" for X
    by (simp add: forget_paidAmount_def)
  have "(pay_emi a1 ref d e)\<lparr>e_paidAmount := 0\<rparr> = (pay_emi a2 ref d e)\<lparr>e_paidAmount := 0\<rparr>"
    by (simp add: pay_emi_def)
  with f g show ?thesis
    unfolding L_def e_def es_def by simp
qed

lemma forget_payment_put_loan:
  "map (forget_payment loanId emiNumber) (put_loan l ls) =
   map (\<lambda>x. if l_id x = l_id l then forget_payment loanId emiNumber l
              else forget_payment loanId emiNumber x) ls"
  by (simp add: put_loan_def comp_def if_distrib cong: if_cong)

text \<open>
  Claim C9. Two payments that differ only in the amount answer alike and leave databases
  that agree on the outstanding amount, the principal and interest paid, the current LTV,
  the next EMI date and the status of every loan, on every collateral and application,
  and on everything else of the loans once the paid amounts of the schedule entries are
  blanked, indeed once the paid amount of the one entry with the EMI number of the
  request, on the loan of the request, is blanked: the amount reaches the paidAmount of
  the EMI entry and nothing else.
\<close>

theorem payment_amount_noninterference:
  "map_sum id ledger (fst (recordPayment now loanId emiNumber a1 ref pd s)) =
   map_sum id ledger (fst (recordPayment now loanId emiNumber a2 ref pd s)) \<and>
   map ledger (loans (snd (recordPayment now loanId emiNumber a1 ref pd s))) =
   map ledger (loans (snd (recordPayment now loanId emiNumber a2 ref pd s))) \<and>
   map forget_paidAmount (loans (snd (recordPayment now loanId emiNumber a1 ref pd s))) =
   map forget_paidAmount (loans (snd (recordPayment now loanId emiNumber a2 ref pd s))) \<and>
   map (forget_payment loanId emiNumber)
     (loans (snd (recordPayment now loanId emiNumber a1 ref pd s))) =
   map (forget_payment loanId emiNumber)
     (loans (snd (recordPayment now loanId emiNumber a2 ref pd s))) \<and>
   collaterals (snd (recordPayment now loanId emiNumber a1 ref pd s)) =
   collaterals (snd (recordPayment now loanId emiNumber a2 ref pd s)) \<and>
   applications (snd (recordPayment now loanId emiNumber a1 ref pd s)) =
   applications (snd (recordPayment now loanId emiNumber a2 ref pd s))"
proof (cases "\<exists>loan i. find (\<lambda>l. l_id l = loanId) (loans s) = Some loan \<and>
    l_status loan \<noteq> LoanClosed \<and>
    findIndex (\<lambda>e. e_emiNumber e = emiNumber) (l_emiSchedule loan) = Some i \<and>
    e_status (l_emiSchedule loan ! i) \<noteq> Paid")
  case False
  then have "recordPayment now loanId emiNumber a1 ref pd s =
             recordPayment now loanId emiNumber a2 ref pd s"
    by (auto simp: recordPayment_def split: option.splits)
  then show ?thesis by simp
next
  case True
  then obtain loan i where h: "find (\<lambda>l. l_id l = loanId) (loans s) = Some loan"
    "l_status loan \<noteq> LoanClosed"
    "findIndex (\<lambda>e. e_emiNumber e = emiNumber) (l_emiSchedule loan) = Some i"
    "e_status (l_emiSchedule loan ! i) \<noteq> Paid" by blast
  define d where "d = (case pd of Some d \<Rightarrow> d | None \<Rightarrow> now)"
  define e where "e = l_emiSchedule loan ! i"
  define sch where "sch a = (l_emiSchedule loan)[i := pay_emi a ref d e]" for a
  define L where "L a = settle now (sch a) e loan" for a
  define U where "U a = update_totals (sch a) e loan" for a
  have fs: "map (\<lambda>e. e\<lparr>e_paidAmount := 0\<rparr>) (sch a1) =
            map (\<lambda>e. e\<lparr>e_paidAmount := 0\<rparr>) (sch a2)"
    unfolding sch_def by (rule forget_pay_emi)
  have fL: "forget_paidAmount (L a1) = forget_paidAmount (L a2)"
    unfolding L_def forget_settle fs ..
  have fU: "forget_paidAmount (U a1) = forget_paidAmount (U a2)"
    unfolding U_def forget_update_totals fs ..
  have fp: "fully_paid (U a1) = fully_paid (U a2)"
    using fU fully_paid_forget by metis
  have v: "loan_valid (L a1) = loan_valid (L a2)"
    using fL loan_valid_forget by metis
  have lg: "ledger (L a1) = ledger (L a2)"
    using fL ledger_forget by metis
  have pl: "map forget_paidAmount (put_loan (L a1) (loans s)) =
            map forget_paidAmount (put_loan (L a2) (loans s))"
    by (simp add: forget_put_loan fL)
  have pl2: "map ledger (put_loan (L a1) (loans s)) = map ledger (put_loan (L a2) (loans s))"
  proof -
    have "map ledger (map forget_paidAmount xs) = map ledger xs" for xs
      by (simp add: comp_def ledger_forget)
    with pl show ?thesis by metis
  qed
  have id: "l_id loan = loanId"
    using h(1) by (auto simp: find_Some_iff)
  have pl3: "map (forget_payment loanId emiNumber) (put_loan (L a1) (loans s)) =
             map (forget_payment loanId emiNumber) (put_loan (L a2) (loans s))"
    unfolding forget_payment_put_loan L_def sch_def e_def
    by (simp add: settle_id forget_payment_settle[OF h(3) id])
  have r: "recordPayment now loanId emiNumber a ref pd s =
     (if loan_valid (L a)
      then (Inr (L a),
            s\<lparr>collaterals := (if fully_paid (U a)
                               then release_by_loan now (l_id loan) (collaterals s)
                               else collaterals s),
              loans := put_loan (L a) (loans s)\<rparr>)
      else (Inl ValidationError,
            s\<lparr>collaterals := (if fully_paid (U a)
                               then release_by_loan now (l_id loan) (collaterals s)
                               else collaterals s)\<rparr>))" for a
    unfolding recordPayment_settle[OF h] L_def U_def sch_def e_def d_def Let_def ..
  show ?thesis unfolding r using fp v lg pl pl2 pl3 by simp
qed

text \<open>
  The first EMI of the example loan, paid with the scheduled 609.01 and with 5: the loan
  stands at the same balances.
\<close>

theorem payment_amount_noninterference_witness:
  "map ledger (loans (snd (recordPayment demo_date 100 1 (60901 / 100) None None demo_disbursed))) =
     [(60299 / 100, 59701 / 100, 12, 60299 / 2400,
       Some \<lparr>year = 2025, month = 2, day = 31, msec = 36000000\<rparr>, Active)] \<and>
   map ledger (loans (snd (recordPayment demo_date 100 1 5 None None demo_disbursed))) =
     [(60299 / 100, 59701 / 100, 12, 60299 / 2400,
       Some \<lparr>year = 2025, month = 2, day = 31, msec = 36000000\<rparr>, Active)] \<and>
   map (\<lambda>l. map e_paidAmount (l_emiSchedule l))
     (loans (snd (recordPayment demo_date 100 1 5 None None demo_disbursed))) = [[5, 0]]"
proof -
  have 1: "map ledger
      (loans (snd (recordPayment demo_date 100 1 (60901 / 100) None None demo_disbursed))) =
     [(60299 / 100, 59701 / 100, 12, 60299 / 2400,
       Some \<lparr>year = 2025, month = 2, day = 31, msec = 36000000\<rparr>, Active)]"
    by (simp add: demo_defs payment_defs ledger_def)
  have 2: "map (\<lambda>l. map e_paidAmount (l_emiSchedule l))
     (loans (snd (recordPayment demo_date 100 1 5 None None demo_disbursed))) = [[5, 0]]"
    by (simp add: demo_defs payment_defs)
  from payment_amount_noninterference [of demo_date 100 1 "60901 / 100" None None
      demo_disbursed 5] 1 2
  show ?thesis by simp
qed

subsection \<open>Closure by the last payment\<close>

lemma release_by_loan_keeps_application:
  "map c_linkedApplication (release_by_loan now lid cs) = map c_linkedApplication cs"
  by (simp add: release_by_loan_def comp_def if_distrib cong: if_cong)

text \<open>
  Claim C2, evaluated. The second and last EMI of the example loan is paid: the loan is
  closed as fully paid and stamped, and its collateral is released with the loan link
  cleared, but the link to the application that disbursal left on it is still set.
\<close>

theorem payment_closure_keeps_application_link:
  "map_sum id (\<lambda>l. (l_status l, l_closureReason l, l_closedAt l, l_outstandingAmount l))
     (fst (recordPayment demo_date 100 2 (60901 / 100) (Some ''UTR2'') None demo_paid1)) =
     Inr (LoanClosed, Some Fully_paid, Some demo_date, 1 / 100) \<and>
   map (\<lambda>c. (c_lienStatus c, c_linkedApplication c, c_linkedLoan c))
     (collaterals (snd (recordPayment demo_date 100 2 (60901 / 100) (Some ''UTR2'') None
        demo_paid1))) =
     [(Released, Some 1, None)]"
  by (simp add: demo_defs payment_defs)

text \<open>
  A payment whose principal exceeds the outstanding amount: the collaterals of the loan
  are released, and then the save is rejected, since the outstanding amount would be
  negative. The loan stays as it was.
\<close>

lemma overshoot_payment_rejected:
  assumes "find (\<lambda>l. l_id l = loanId) (loans s) = Some loan"
      and "l_status loan \<noteq> LoanClosed"
      and "findIndex (\<lambda>e. e_emiNumber e = emiNumber) (l_emiSchedule loan) = Some i"
      and "e_status (l_emiSchedule loan ! i) \<noteq> Paid"
      and "l_outstandingAmount loan < e_principal (l_emiSchedule loan ! i)"
  shows "recordPayment now loanId emiNumber amount ref pd s =
           (Inl ValidationError,
            s\<lparr>collaterals := release_by_loan now (l_id loan) (collaterals s)\<rparr>)"
proof -
  have o: "l_outstandingAmount (settle now sch e loan) =
             l_outstandingAmount loan - e_principal e" for sch e
    by (simp add: settle_def overdue_check_def close_loan_def update_totals_def Let_def)
  have f: "fully_paid (update_totals sch (l_emiSchedule loan ! i) loan)" for sch
    using assms(5) by (simp add: fully_paid_def update_totals_def Let_def)
  have v: "\<not> loan_valid (settle now sch (l_emiSchedule loan ! i) loan)" for sch
    using assms(5) by (simp add: loan_valid_def o)
  show ?thesis
    unfolding recordPayment_settle[OF assms(1-4)] by (simp add: Let_def f v)
qed

text \<open>
  The loan over 500 has principal components of 248.76 and 251.25, a cent more than was
  disbursed. Its disbursal and the payment of its first EMI succeed; the payment of its
  second EMI is rejected, and leaves the loan active with 251.24 outstanding and its
  collateral released.
\<close>

lemma overshoot_example:
  "\<not> isl (fst (updateApplicationStatus demo_date 101 2 ''disbursed'' None None tight_db)) \<and>
   \<not> isl (fst (recordPayment demo_date 101 1 (25376 / 100) None None tight_disbursed)) \<and>
   fst (recordPayment demo_date 101 2 (25376 / 100) None None tight_paid1) =
     Inl ValidationError \<and>
   map (\<lambda>l. (l_status l, l_outstandingAmount l, map e_status (l_emiSchedule l)))
     (loans (snd (recordPayment demo_date 101 2 (25376 / 100) None None tight_paid1))) =
     [(Active, 25124 / 100, [Paid, Pending])] \<and>
   map (\<lambda>c. (c_lienStatus c, c_linkedApplication c, c_linkedLoan c))
     (collaterals (snd (recordPayment demo_date 101 2 (25376 / 100) None None tight_paid1))) =
     [(Released, Some 2, None)]"
proof -
  have d: "tight_disbursed =
    \<lparr>collaterals = [tight_collateral\<lparr>c_linkedLoan := Some 101\<rparr>],
     applications =
       [tight_application\<lparr>a_status := Disbursed, a_disbursedAt := Some demo_date\<rparr>],
     loans =
       [\<lparr>l_id = 101, l_application = 2, l_loanProduct = 7, l_disbursedAmount = 500,
         l_outstandingAmount = 500, l_tenure = 2, l_interestRate = 12,
         l_emiAmount = 25376 / 100,
         l_nextEmiDate = Some \<lparr>year = 2025, month = 2, day = 3, msec = 36000000\<rparr>,
         l_collaterals = [11], l_totalCollateralValue = 1000, l_currentLTV = 50,
         l_status = Active,
         l_emiSchedule =
           [\<lparr>e_emiNumber = 1,
              e_dueDate = \<lparr>year = 2025, month = 2, day = 3, msec = 36000000\<rparr>,
              e_principal = 24876 / 100, e_interest = 5, e_totalAmount = 25376 / 100,
              e_status = Pending, e_paidAmount = 0, e_paidDate = None,
              e_penaltyAmount = 0, e_paymentReference = None\<rparr>,
            \<lparr>e_emiNumber = 2,
              e_dueDate = \<lparr>year = 2025, month = 2, day = 31, msec = 36000000\<rparr>,
              e_principal = 25125 / 100, e_interest = 251 / 100,
              e_totalAmount = 25376 / 100, e_status = Pending, e_paidAmount = 0,
              e_paidDate = None, e_penaltyAmount = 0, e_paymentReference = None\<rparr>],
         l_totalPrincipalPaid = 0, l_totalInterestPaid = 0, l_disbursedAt = demo_date,
         l_closedAt = None, l_closureReason = None\<rparr>],
     products = [7]\<rparr>"
    unfolding tight_disbursed_def
    by (simp add: tight_db_def tight_application_def tight_collateral_def demo_date_def
        disbursal_defs)
  have 0: "\<not> isl (fst (updateApplicationStatus demo_date 101 2 ''disbursed'' None None
      tight_db))"
    by (simp add: tight_db_def tight_application_def tight_collateral_def demo_date_def
        disbursal_defs)
  have 1: "\<not> isl (fst (recordPayment demo_date 101 1 (25376 / 100) None None
      tight_disbursed))"
    unfolding d by (simp add: payment_defs tight_collateral_def demo_date_def)
  have 2: "recordPayment demo_date 101 2 (25376 / 100) None None tight_paid1 =
     (Inl ValidationError,
      tight_paid1\<lparr>collaterals :=
        [tight_collateral\<lparr>c_lienStatus := Released,
           c_lienReleasedDate := Some demo_date\<rparr>]\<rparr>)"
    unfolding tight_paid1_def d
    by (simp add: payment_defs tight_collateral_def demo_date_def)
  have 3: "map (\<lambda>l. (l_status l, l_outstandingAmount l, map e_status (l_emiSchedule l)))
     (loans tight_paid1) = [(Active, 25124 / 100, [Paid, Pending])]"
    unfolding tight_paid1_def d
    by (simp add: payment_defs tight_collateral_def demo_date_def)
  show ?thesis
    using 0 1 3 unfolding 2 by (simp add: tight_collateral_def)
qed

subsection \<open>The administrative override\<close>

lemma find_loan_status:
  "find (\<lambda>x. loan_status_name x = loan_status_name st) validStatuses = Some st"
  by (cases st) (simp_all add: validStatuses_def)

text \<open>
  Claim C10. For an existing loan (one that meets the minimums of its schema, which
  every request keeps true of every loan, as the last section shows) and each of the
  five statuses, updateLoanStatus succeeds whatever the
  current status is. The loan it saves differs from the stored one in the status, and in
  closedAt when the status is closed; the collaterals, the applications and the products
  are as before.
\<close>

theorem updateLoanStatus_frame:
  assumes "find (\<lambda>l. l_id l = loanId) (loans s) = Some loan" and "loan_valid loan"
  shows "updateLoanStatus now loanId (loan_status_name st) s =
           (Inr (loan\<lparr>l_status := st,
                   l_closedAt := (if st = LoanClosed then Some now else l_closedAt loan)\<rparr>),
            s\<lparr>loans := put_loan
                 (loan\<lparr>l_status := st,
                    l_closedAt := (if st = LoanClosed then Some now else l_closedAt loan)\<rparr>)
                 (loans s)\<rparr>)"
  using assms by (simp add: updateLoanStatus_def find_loan_status loan_valid_def Let_def)

text \<open>
  The example loan overridden to closed: no closure reason, and its collateral still
  marked and linked to the loan.
\<close>

theorem updateLoanStatus_frame_witness:
  "find (\<lambda>l. l_id l = 100) (loans demo_disbursed) = Some demo_loan \<and> loan_valid demo_loan \<and>
   updateLoanStatus demo_date 100 ''closed'' demo_disbursed =
     (Inr (demo_loan\<lparr>l_status := LoanClosed, l_closedAt := Some demo_date\<rparr>),
      demo_disbursed\<lparr>loans :=
        [demo_loan\<lparr>l_status := LoanClosed, l_closedAt := Some demo_date\<rparr>]\<rparr>) \<and>
   l_closureReason (demo_loan\<lparr>l_status := LoanClosed, l_closedAt := Some demo_date\<rparr>) = None \<and>
   map (\<lambda>c. (c_lienStatus c, c_linkedLoan c)) (collaterals demo_disbursed) =
     [(Marked, Some 100)]"
  using updateLoanStatus_frame [of 100 demo_disbursed demo_loan demo_date LoanClosed]
  by (simp add: demo_disbursed_def demo_loan_def loan_valid_def put_loan_def
      demo_collateral_def)

subsection \<open>The overdue sweep\<close>

lemma mark_emi_not_due: "\<not> is_due today (mark_emi today e)"
  by (simp add: mark_emi_def is_due_def)

lemma none_due_after_marking: "\<not> list_ex (is_due today) (map (mark_emi today) es)"
  by (induction es) (simp_all add: mark_emi_not_due)

lemma sweep_idempotent: "snd (sweep today (snd (sweep today ls))) = snd (sweep today ls)"
proof (induction ls)
  case Nil
  show ?case by simp
next
  case (Cons l ls)
  show ?case
    using Cons none_due_after_marking[of today "l_emiSchedule l"]
    by (auto simp: Let_def split: prod.splits)
qed

text \<open>
  Claim C8. Running markOverdueEmis a second time with the same date leaves the
  database of the first run: every loan and every EMI entry is as the first run left it.
\<close>

theorem markOverdueEmis_idempotent:
  "snd (markOverdueEmis now (snd (markOverdueEmis now s))) = snd (markOverdueEmis now s)"
proof -
  define t where "t = now\<lparr>msec := 0\<rparr>"
  obtain r ls where 1: "sweep t (loans s) = (r, ls)" by fastforce
  obtain r2 ls2 where 2: "sweep t ls = (r2, ls2)" by fastforce
  from sweep_idempotent[of t "loans s"] 1 2 have "ls2 = ls" by simp
  with 1 2 show ?thesis by (simp add: markOverdueEmis_def t_def[symmetric])
qed

text \<open>
  The sweep of 10 March 2025 over the example loan marks its first EMI (due 3 March) and
  the loan overdue; the second sweep of that day changes nothing.
\<close>

theorem markOverdueEmis_idempotent_witness:
  "map (\<lambda>l. (l_status l, map e_status (l_emiSchedule l)))
     (loans (snd (markOverdueEmis \<lparr>year = 2025, month = 2, day = 10, msec = 500\<rparr>
        demo_disbursed))) = [(LoanOverdue, [Overdue, Pending])] \<and>
   snd (markOverdueEmis \<lparr>year = 2025, month = 2, day = 10, msec = 500\<rparr>
     (snd (markOverdueEmis \<lparr>year = 2025, month = 2, day = 10, msec = 500\<rparr> demo_disbursed))) =
   snd (markOverdueEmis \<lparr>year = 2025, month = 2, day = 10, msec = 500\<rparr> demo_disbursed)"
proof -
  have "map (\<lambda>l. (l_status l, map e_status (l_emiSchedule l)))
     (loans (snd (markOverdueEmis \<lparr>year = 2025, month = 2, day = 10, msec = 500\<rparr>
        demo_disbursed))) = [(LoanOverdue, [Overdue, Pending])]"
    by (simp add: markOverdueEmis_def demo_defs in_sweep_def is_due_def date_less_def
        mark_emi_def loan_valid_def Let_def)
  with markOverdueEmis_idempotent [of "\<lparr>year = 2025, month = 2, day = 10, msec = 500\<rparr>"
      demo_disbursed]
  show ?thesis by simp
qed


section \<open>Properties of the EMI schedule\<close>

subsection \<open>Shape of the schedule\<close>

lemma emi_loop_shape:
  "map e_emiNumber (emi_loop loan r i b) = [i..<Suc (l_tenure loan)] \<and>
   map e_dueDate (emi_loop loan r i b) =
     map (\<lambda>j. setMonth (l_disbursedAt loan) (month (l_disbursedAt loan) + j))
       [i..<Suc (l_tenure loan)]"
proof (induction loan r i b rule: emi_loop.induct)
  case (1 loan r i b)
  show ?case
  proof (cases "i \<le> l_tenure loan")
    case True
    then have u: "[i..<Suc (l_tenure loan)] = i # [i + 1..<Suc (l_tenure loan)]"
      by (simp add: upt_conv_Cons)
    from True 1 show ?thesis
      by (subst (1 2) emi_loop.simps) (simp add: Let_def u del: upt_Suc)
  next
    case False
    then show ?thesis by (subst (1 2) emi_loop.simps) simp
  qed
qed

lemma days_in_month_ge: "28 \<le> days_in_month y m"
  by (simp add: days_in_month_def)

lemma months_of_nat: "int (m div 12) * 12 + int (m mod 12) = int m"
  by (metis of_nat_add of_nat_mult div_mult_mod_eq of_nat_numeral)

text \<open>
  What setMonth returns: a month below 12 and the time of day of its argument; either
  the target month with the day kept, or the month after it with a smaller day.
\<close>

lemma setMonth_cases:
  "month (setMonth d m) < 12 \<and> msec (setMonth d m) = msec d \<and>
   ((month_index (setMonth d m) = year d * 12 + int m \<and> day (setMonth d m) = day d) \<or>
    (month_index (setMonth d m) = year d * 12 + int m + 1 \<and> day (setMonth d m) < day d))"
proof -
  have p: "0 < days_in_month y k" for y k
    using days_in_month_ge[of y k] by simp
  show ?thesis
    using months_of_nat[of m] p[of "year d + int (m div 12)" "m mod 12"]
    by (auto simp: setMonth_def Let_def month_index_def algebra_simps)
qed

lemma date_less_index:
  assumes "month a < 12" "month b < 12"
    and "month_index a < month_index b \<or> (month_index a = month_index b \<and> day a < day b)"
  shows "date_less a b"
  using assms unfolding date_less_def month_index_def by auto

lemma setMonth_mono:
  assumes "a < b"
  shows "date_less (setMonth d a) (setMonth d b)"
  using setMonth_cases[of d a] setMonth_cases[of d b] assms
  by (intro date_less_index) auto

lemma sorted_due_dates:
  "sorted_wrt date_less (map (\<lambda>j. setMonth d (m + j)) [i..<n])"
proof -
  have "sorted_wrt (<) [i..<n]" by simp
  then have "sorted_wrt (\<lambda>a b. date_less (setMonth d (m + a)) (setMonth d (m + b))) [i..<n]"
    by (rule sorted_wrt_mono_rel[rotated]) (simp add: setMonth_mono)
  then show ?thesis by (simp add: sorted_wrt_map)
qed

lemma setMonth_short:
  assumes "day d \<le> 28"
  shows "setMonth d m = d\<lparr>year := year d + int (m div 12), month := m mod 12\<rparr>"
  using assms days_in_month_ge[of "year d + int (m div 12)" "m mod 12"]
  by (simp add: setMonth_def Let_def)

lemma month_index_short:
  "month_index (d\<lparr>year := year d + int (m div 12), month := m mod 12\<rparr>) =
     year d * 12 + int m"
  using months_of_nat[of m] by (simp add: month_index_def algebra_simps)

lemma monthly_steps_upt:
  assumes "day d \<le> 28" and "month_index prev + 1 = year d * 12 + int (month d + i)"
  shows "monthly_steps prev (map (\<lambda>j. setMonth d (month d + j)) [i..<n])"
  using assms(2)
proof (induction "n - i" arbitrary: i prev)
  case 0
  then show ?case by simp
next
  case (Suc k)
  then have u: "[i..<n] = i # [Suc i..<n]"
    by (simp add: upt_conv_Cons)
  have "monthly_steps (setMonth d (month d + i))
          (map (\<lambda>j. setMonth d (month d + j)) [Suc i..<n])"
    using Suc.hyps(2)
    by (intro Suc.hyps(1)) (simp_all add: setMonth_short[OF assms(1)] month_index_short)
  then show ?case
    using Suc.prems by (simp add: u setMonth_short[OF assms(1)] month_index_short)
qed

lemma same_day_upt:
  assumes "day d \<le> 28"
  shows "list_all (\<lambda>x. day x = day d) (map (\<lambda>j. setMonth d (m + j)) [i..<n])"
  by (simp add: list_all_iff setMonth_short[OF assms])

text \<open>
  What holds of the schedule for every loan: it has as many entries as the tenure has
  months, numbered from 1 without gaps; the due date of installment i is what
  \<open>setMonth(getMonth() + i)\<close> makes of the disbursal date, and the due dates are
  strictly increasing. When the disbursal day of the month is at most 28, every due date
  lies in the calendar month after that of the previous one (the first in the month
  after disbursal), on the disbursal day of the month.
\<close>

theorem schedule_shape:
  "length (l_emiSchedule (generateEmiSchedule loan)) = l_tenure loan \<and>
   map e_emiNumber (l_emiSchedule (generateEmiSchedule loan)) = [1..<Suc (l_tenure loan)] \<and>
   map e_dueDate (l_emiSchedule (generateEmiSchedule loan)) =
     map (\<lambda>i. setMonth (l_disbursedAt loan) (month (l_disbursedAt loan) + i))
       [1..<Suc (l_tenure loan)] \<and>
   sorted_wrt date_less (map e_dueDate (l_emiSchedule (generateEmiSchedule loan))) \<and>
   (day (l_disbursedAt loan) \<le> 28 \<longrightarrow>
      monthly_steps (l_disbursedAt loan)
        (map e_dueDate (l_emiSchedule (generateEmiSchedule loan))) \<and>
      list_all (\<lambda>d. day d = day (l_disbursedAt loan))
        (map e_dueDate (l_emiSchedule (generateEmiSchedule loan))))"
proof -
  define sch where "sch = l_emiSchedule (generateEmiSchedule loan)"
  have s: "sch = emi_loop loan (l_interestRate loan / 12 / 100) 1 (l_disbursedAmount loan)"
    by (simp add: sch_def generateEmiSchedule_def)
  have n: "map e_emiNumber sch = [1..<Suc (l_tenure loan)]"
    and d: "map e_dueDate sch =
      map (\<lambda>i. setMonth (l_disbursedAt loan) (month (l_disbursedAt loan) + i))
        [1..<Suc (l_tenure loan)]"
    unfolding s using emi_loop_shape by blast+
  have l: "length sch = l_tenure loan"
    using arg_cong[OF n, of length] by simp
  have st: "sorted_wrt date_less (map e_dueDate sch)"
    unfolding d by (rule sorted_due_dates)
  have m: "monthly_steps (l_disbursedAt loan) (map e_dueDate sch)"
    if h: "day (l_disbursedAt loan) \<le> 28"
    unfolding d by (rule monthly_steps_upt[OF h]) (simp add: month_index_def)
  have sd: "list_all (\<lambda>x. day x = day (l_disbursedAt loan)) (map e_dueDate sch)"
    if h: "day (l_disbursedAt loan) \<le> 28"
    unfolding d by (rule same_day_upt[OF h])
  show ?thesis
    using n d l st m sd unfolding sch_def by blast
qed

text \<open>The loan of 48 months, disbursed on a 15th.\<close>

theorem schedule_shape_witness:
  "day (l_disbursedAt loan48) \<le> 28 \<and>
   length (l_emiSchedule (generateEmiSchedule loan48)) = 48 \<and>
   sorted_wrt date_less (map e_dueDate (l_emiSchedule (generateEmiSchedule loan48))) \<and>
   monthly_steps (l_disbursedAt loan48)
     (map e_dueDate (l_emiSchedule (generateEmiSchedule loan48))) \<and>
   list_all (\<lambda>d. day d = 15) (map e_dueDate (l_emiSchedule (generateEmiSchedule loan48)))"
proof -
  have d: "day (l_disbursedAt loan48) = 15" and t: "l_tenure loan48 = 48"
    by (simp_all add: loan48_def)
  note s = schedule_shape [of loan48]
  from s have 1: "length (l_emiSchedule (generateEmiSchedule loan48)) = l_tenure loan48"
    by blast
  from s have 2: "sorted_wrt date_less (map e_dueDate (l_emiSchedule (generateEmiSchedule loan48)))"
    by blast
  have d28: "day (l_disbursedAt loan48) \<le> 28"
    by (simp add: d)
  from s d28 have 3: "monthly_steps (l_disbursedAt loan48)
         (map e_dueDate (l_emiSchedule (generateEmiSchedule loan48))) \<and>
       list_all (\<lambda>x. day x = day (l_disbursedAt loan48))
         (map e_dueDate (l_emiSchedule (generateEmiSchedule loan48)))"
    by blast
  from 1 2 3 d t show ?thesis by simp
qed

text \<open>
  Claim C4, evaluated. The example loan is disbursed on 31 January 2025; its first EMI is
  due on 3 March and its second on 31 March. No EMI is due in February, and the two due
  dates lie in one calendar month: the due dates do not step by one calendar month.
\<close>

theorem end_of_month_due_dates:
  "l_disbursedAt demo_loan = \<lparr>year = 2025, month = 0, day = 31, msec = 36000000\<rparr> \<and>
   l_tenure demo_loan = 2 \<and>
   map e_dueDate (l_emiSchedule (generateEmiSchedule demo_loan)) =
     [\<lparr>year = 2025, month = 2, day = 3, msec = 36000000\<rparr>,
      \<lparr>year = 2025, month = 2, day = 31, msec = 36000000\<rparr>] \<and>
   \<not> monthly_steps (l_disbursedAt demo_loan)
       (map e_dueDate (l_emiSchedule (generateEmiSchedule demo_loan)))"
  by (simp add: demo_loan_def demo_date_def generateEmiSchedule_def emi_loop.simps Let_def
      setMonth_def days_in_month_def leap_year_def month_index_def)

subsection \<open>The sum of the principal components\<close>


text \<open>
  The rounding to the nearest double is off by at most half a unit in the last place:
  \<open>to_double\<close> is a rounding as \<open>double_rounding\<close> asks, and so is the arithmetic that
  does not round.
\<close>

lemma pow2_powr: "pow2 e = 2 powr (of_int e)"
  by (simp add: pow2_def powr_int)

lemma pow2_pos: "0 < pow2 e"
  by (simp add: pow2_powr)






lemma exact_apply: "exact x = x"
  by (simp add: exact_def)

lemma double_rounding_exact: "double_rounding exact"
  using pow2_pos[of "- 53"] pow2_pos[of "- 1075"]
  by (simp add: double_rounding_def exact_apply)


text \<open>
  In exact arithmetic and at a whole tenure, the schedule is the one of
  \<open>generateEmiSchedule\<close> above.
\<close>

lemma emi_loop_exact:
  "emi_loop_ieee exact (real (l_tenure loan)) (l_emiAmount loan) (l_disbursedAt loan) r i b =
   emi_loop loan r i b"
proof (induction loan r i b rule: emi_loop.induct)
  case (1 loan r i b)
  show ?case
  proof (cases "i \<le> l_tenure loan")
    case True
    have IH: "emi_loop_ieee exact (real (l_tenure loan)) (l_emiAmount loan) (l_disbursedAt loan)
                r (i + 1) (b - (l_emiAmount loan - b * r)) =
              emi_loop loan r (i + 1) (b - (l_emiAmount loan - b * r))"
      by (rule 1[OF True refl refl refl])
    show ?thesis
      by (subst emi_loop_ieee.simps, subst emi_loop.simps)
         (simp add: True Let_def exact_apply ieee_round2_def round2_def IH[simplified])
  next
    case False
    then show ?thesis
      by (subst emi_loop_ieee.simps, subst emi_loop.simps) simp
  qed
qed

lemma generateEmiSchedule_exact:
  "generateEmiSchedule_ieee exact (l_interestRate loan) (real (l_tenure loan))
     (l_emiAmount loan) (l_disbursedAmount loan) (l_disbursedAt loan) =
   l_emiSchedule (generateEmiSchedule loan)"
  by (simp add: generateEmiSchedule_ieee_def generateEmiSchedule_def monthly_rate_def
      emi_loop_exact exact_apply)

text \<open>
  The EMI numbers, the due dates and the statuses of the schedule do not depend on the
  arithmetic: at a whole tenure they are those of \<open>emi_loop\<close>, whatever the rounding,
  the rate and the balance.
\<close>

lemma emi_loop_ieee_dates:
  "map (\<lambda>e. (e_emiNumber e, e_dueDate e, e_status e))
     (emi_loop_ieee fl (real (l_tenure loan)) emi (l_disbursedAt loan) r i b) =
   map (\<lambda>e. (e_emiNumber e, e_dueDate e, e_status e)) (emi_loop loan r' i b')"
proof (induction "Suc (l_tenure loan) - i" arbitrary: i b b')
  case 0
  then have "\<not> i \<le> l_tenure loan" by simp
  then show ?case
    by (subst emi_loop_ieee.simps, subst emi_loop.simps) simp
next
  case (Suc n)
  then have i: "i \<le> l_tenure loan" and n: "n = Suc (l_tenure loan) - (i + 1)"
    by simp_all
  show ?case
    by (subst emi_loop_ieee.simps, subst emi_loop.simps)
       (simp add: i Let_def Suc.hyps(1)[OF n, simplified])
qed






text \<open>
  The balance the loop is left with. In exact arithmetic it is the distance of the EMI amount
  from the exact annuity, compounded over the schedule; the roundings to a double move it
  by three roundings for each installment, compounded likewise.
\<close>

lemma balance_after_closed:
  assumes "r \<noteq> 0"
  shows "balance_after r emi n b = b * (1 + r) ^ n - emi * ((1 + r) ^ n - 1) / r"
proof (induction n arbitrary: b)
  case 0
  show ?case by simp
next
  case (Suc n)
  show ?case using assms by (simp add: Suc field_simps)
qed





text \<open>
  The roundings to a double that the two examples below go through, each read off between
  the two powers of 2 around it.
\<close>

lemma to_double_eval:
  assumes "pow2 E \<le> \<bar>x\<bar>" and "\<bar>x\<bar> < pow2 (E + 1)" and "- 1022 \<le> E"
  shows "to_double x = of_int (round_half_even (x / pow2 (E - 52))) * pow2 (E - 52)"
proof -
  have x: "0 < \<bar>x\<bar>" using assms(1) pow2_pos[of E] by linarith
  have "of_int E \<le> log 2 \<bar>x\<bar>"
    using assms(1) x by (simp add: le_log_iff pow2_powr)
  moreover have "log 2 \<bar>x\<bar> < of_int E + 1"
    using assms(2) x by (simp add: log_less_iff pow2_powr)
  ultimately have "\<lfloor>log 2 \<bar>x\<bar>\<rfloor> = E" by linarith
  then have "binade x = E" using assms(3) by (simp add: binade_def)
  with x show ?thesis by (simp add: to_double_def)
qed

lemma double_1:
  "to_double 1 = 1"
  using to_double_eval[of 0 "1"]
  by (simp add: pow2_def round_half_even_def)

lemma double_2:
  "to_double (1 / 100) = 5764607523034235 / 576460752303423488"
  using to_double_eval[of "- 7" "1 / 100"]
  by (simp add: pow2_def round_half_even_def)

lemma double_3:
  "to_double (24421 / 50) = 8592375507813663 / 17592186044416"
  using to_double_eval[of 8 "24421 / 50"]
  by (simp add: pow2_def round_half_even_def)

lemma double_4:
  "to_double (432345564227567625 / 36028797018963968) = 12"
  using to_double_eval[of 3 "432345564227567625 / 36028797018963968"]
  by (simp add: pow2_def round_half_even_def)

lemma double_5:
  "to_double (8381269275280671 / 17592186044416) = 8381269275280671 / 17592186044416"
  using to_double_eval[of 8 "8381269275280671 / 17592186044416"]
  by (simp add: pow2_def round_half_even_def)

lemma double_6:
  "to_double (12729353978018529 / 17592186044416) = 397792311813079 / 549755813888"
  using to_double_eval[of 9 "12729353978018529 / 17592186044416"]
  by (simp add: pow2_def round_half_even_def)

lemma double_7:
  "to_double (209531731882016775 / 4398046511104) = 47642"
  using to_double_eval[of 15 "209531731882016775 / 4398046511104"]
  by (simp add: pow2_def round_half_even_def)

lemma double_8:
  "to_double (23821 / 50) = 8381269275280671 / 17592186044416"
  using to_double_eval[of 8 "23821 / 50"]
  by (simp add: pow2_def round_half_even_def)

lemma double_9:
  "to_double (2293116553282855392988237759565 / 316912650057057350374175801344) = 4073393272965929 / 562949953421312"
  using to_double_eval[of 2 "2293116553282855392988237759565 / 316912650057057350374175801344"]
  by (simp add: pow2_def round_half_even_def)

lemma double_10:
  "to_double (270882622977071287 / 562949953421312) = 4232540984016739 / 8796093022208"
  using to_double_eval[of 8 "270882622977071287 / 562949953421312"]
  by (simp add: pow2_def round_half_even_def)

lemma double_11:
  "to_double (2132136004992525 / 8796093022208) = 2132136004992525 / 8796093022208"
  using to_double_eval[of 7 "2132136004992525 / 8796093022208"]
  by (simp add: pow2_def round_half_even_def)

lemma double_12:
  "to_double (105813524600418475 / 2199023255552) = 6613345287526155 / 137438953472"
  using to_double_eval[of 15 "105813524600418475 / 2199023255552"]
  by (simp add: pow2_def round_half_even_def)

lemma double_13:
  "to_double (24059 / 50) = 8465008080852091 / 17592186044416"
  using to_double_eval[of 8 "24059 / 50"]
  by (simp add: pow2_def round_half_even_def)

lemma double_14:
  "to_double (2588 / 25) = 7284572397271777 / 70368744177664"
  using to_double_eval[of 6 "2588 / 25"]
  by (simp add: pow2_def round_half_even_def)

lemma double_15:
  "to_double (1181744542222018175 / 1152921504606846976) = 2308094809027379 / 2251799813685248"
  using to_double_eval[of 0 "1181744542222018175 / 1152921504606846976"]
  by (simp add: pow2_def round_half_even_def)

lemma double_16:
  "to_double (230798221903669485 / 2251799813685248) = 7212444434489671 / 70368744177664"
  using to_double_eval[of 6 "230798221903669485 / 2251799813685248"]
  by (simp add: pow2_def round_half_even_def)

lemma double_17:
  "to_double (351843720889 / 70368744177664) = 351843720889 / 70368744177664"
  using to_double_eval[of "- 8" "351843720889 / 70368744177664"]
  by (simp add: pow2_def round_half_even_def)

lemma double_18:
  "to_double (180311110862241775 / 17592186044416) = 5634722214445055 / 549755813888"
  using to_double_eval[of 13 "180311110862241775 / 17592186044416"]
  by (simp add: pow2_def round_half_even_def)

lemma double_19:
  "to_double (10249 / 100) = 7212092590768783 / 70368744177664"
  using to_double_eval[of 6 "10249 / 100"]
  by (simp add: pow2_def round_half_even_def)

lemmas double_values =
  double_1 double_2 double_3 double_4 double_5 double_6 double_7
  double_8 double_9 double_10 double_11 double_12 double_13 double_14
  double_15 double_16 double_17 double_18 double_19

lemma example_monthly_rate:
  "monthly_rate to_double 12 = 5764607523034235 / 576460752303423488"
  by (simp add: monthly_rate_def double_values)






text \<open>
  Where the rounding to a double shows: 102.50 at 12 percent over one month with the EMI
  amount of 103.52. The principal is 103.52 less the interest of 1.025; the doubles make it
  102.49499999999999, which the schedule stores as 102.49, where arithmetic that does not
  round makes it 102.495 and stores 102.50.
\<close>

lemma rounding_to_double_example:
  "map e_principal
     (generateEmiSchedule_ieee to_double 12 1 (to_double (10352 / 100)) (205 / 2) demo_date) =
     [to_double (10249 / 100)] \<and>
   map e_principal
     (generateEmiSchedule_ieee exact 12 1 (10352 / 100) (205 / 2) demo_date) =
     [10250 / 100]"
proof -
  have "map e_principal
     (generateEmiSchedule_ieee to_double 12 1 (to_double (10352 / 100)) (205 / 2) demo_date) =
     [to_double (10249 / 100)]"
    by (simp add: generateEmiSchedule_ieee_def example_monthly_rate emi_loop_ieee.simps
        Let_def double_values ieee_round2_def js_round_def)
  moreover have "map e_principal
     (generateEmiSchedule_ieee exact 12 1 (10352 / 100) (205 / 2) demo_date) =
     [10250 / 100]"
    by (simp add: generateEmiSchedule_ieee_def monthly_rate_def emi_loop_ieee.simps
        Let_def exact_apply ieee_round2_def js_round_def)
  ultimately show ?thesis by simp
qed




text \<open>
  The residue of the loan of 100000 at 48 percent over 48 months: its EMI amount of 4718.06
  is just under half a cent short of the exact annuity, and compounded over the 48 months
  the shortfall leaves a balance of 0.66.
\<close>

lemma loan48_balance:
  "66 / 100 < balance_after (1 / 25) (471806 / 100) 48 100000 \<and>
   balance_after (1 / 25) (471806 / 100) 48 100000 < 67 / 100"
  by (simp add: balance_after_closed power_divide)



section \<open>Properties of the application controller\<close>

subsection \<open>The transition table\<close>

lemma validTransitions_table:
  "status \<in> set (validTransitions st) \<longleftrightarrow> allowed_transition st status"
  by (cases st) (auto simp: allowed_transition_def)

text \<open>
  Claim C3. For an application in any of the seven states and any attempted status,
  updateApplicationStatus succeeds only for the pairs of the table (draft to submitted,
  submitted to under_review or rejected, under_review to approved or rejected, approved
  to disbursed or rejected, disbursed to closed); for every other pair, a self-transition
  or a transition out of rejected or closed among them, it answers InvalidTransition and
  leaves the database, the application with it, unchanged.
\<close>

theorem transition_table_enforced:
  assumes "find (\<lambda>a. a_id a = appId) (applications s) = Some application"
  shows "(\<not> allowed_transition (a_status application) status \<longrightarrow>
            updateApplicationStatus now newId appId status remarks approvedAmount s =
              (Inl InvalidTransition, s)) \<and>
         ((\<exists>a. fst (updateApplicationStatus now newId appId status remarks approvedAmount s) =
                  Inr a)
            \<longrightarrow> allowed_transition (a_status application) status)"
proof -
  have 1: "\<not> allowed_transition (a_status application) status \<Longrightarrow>
            updateApplicationStatus now newId appId status remarks approvedAmount s =
              (Inl InvalidTransition, s)"
    using assms by (simp add: updateApplicationStatus_def validTransitions_table)
  show ?thesis
  proof (cases "allowed_transition (a_status application) status")
    case True
    then show ?thesis by simp
  next
    case False
    with 1 show ?thesis by simp
  qed
qed

text \<open>The approved example application, asked to become approved again.\<close>

theorem transition_table_enforced_witness:
  "find (\<lambda>a. a_id a = 1) (applications demo_db) = Some demo_application \<and>
   a_status demo_application = Approved \<and>
   \<not> allowed_transition (a_status demo_application) ''approved'' \<and>
   updateApplicationStatus demo_date 100 1 ''approved'' None None demo_db =
     (Inl InvalidTransition, demo_db)"
  using transition_table_enforced [of 1 demo_db demo_application "''approved''" demo_date
      100 None None]
  by (simp add: demo_db_def demo_application_def allowed_transition_def)

subsection \<open>The collateral links at disbursal\<close>

lemma link_to_loan_existing:
  "link_to_loan (filter (\<lambda>i. i \<in> c_id ` set cs) ids) lid cs = link_to_loan ids lid cs"
  by (auto simp: link_to_loan_def)

lemma createLoan_collaterals:
  assumes "find (\<lambda>a. a_id a = a_id application) (applications s) = Some populatedApp"
      and "createLoanFromApplication now newId application s = (Inr loan, s1)"
  shows "collaterals s1 = link_to_loan (a_collaterals populatedApp) newId (collaterals s)"
  using assms
  by (auto simp: createLoanFromApplication_def Let_def link_to_loan_existing
           split: if_splits jsnum.splits)

lemma disbursed_name:
  "find (\<lambda>st. app_status_name st = ''disbursed'') app_statuses = Some Disbursed"
  by (simp add: app_statuses_def)

text \<open>
  Claim C1, amended. A disbursal that succeeds sets linkedLoan to the new loan on every
  collateral of the application and changes nothing else on any collateral: the
  linkedApplication and the lienStatus of every collateral are as before. A collateral
  pledged to the application therefore carries both links afterwards, with its lien still
  marked; the two links are not exclusive.
\<close>

theorem disbursal_sets_loan_link:
  assumes "find (\<lambda>a. a_id a = appId) (applications s) = Some application"
      and "updateApplicationStatus now newId appId ''disbursed'' remarks approvedAmount s =
             (Inr a, s1)"
  shows "collaterals s1 =
           map (\<lambda>c. if c_id c \<in> set (a_collaterals application)
                     then c\<lparr>c_linkedLoan := Some newId\<rparr> else c) (collaterals s) \<and>
         map c_linkedApplication (collaterals s1) = map c_linkedApplication (collaterals s) \<and>
         map c_lienStatus (collaterals s1) = map c_lienStatus (collaterals s)"
proof -
  define app1 where "app1 = application\<lparr>a_status := Disbursed,
     a_remarks := (case remarks of
                     Some r \<Rightarrow> if r \<noteq> [] then Some r else a_remarks application
                   | None \<Rightarrow> a_remarks application)\<rparr>"
  have id1: "a_id app1 = appId"
    using assms(1) by (auto simp: app1_def find_Some_iff)
  obtain r s2 where c: "createLoanFromApplication now newId app1 s = (r, s2)"
    by fastforce
  from assms c obtain loan where r: "r = Inr loan" and s1: "collaterals s1 = collaterals s2"
    by (cases r)
       (auto simp: updateApplicationStatus_def disbursed_name stage_def Let_def app1_def
             split: if_splits)
  from createLoan_collaterals[of app1 s application now newId loan s2] assms(1) c r id1
  have "collaterals s2 = link_to_loan (a_collaterals application) newId (collaterals s)"
    by simp
  with s1 have 1:
    "collaterals s1 = link_to_loan (a_collaterals application) newId (collaterals s)"
    by simp
  show ?thesis
    unfolding 1 by (simp add: link_to_loan_def comp_def if_distrib cong: if_cong)
qed

text \<open>The disbursal of the example application.\<close>

theorem disbursal_sets_loan_link_witness:
  "find (\<lambda>a. a_id a = 1) (applications demo_db) = Some demo_application \<and>
   updateApplicationStatus demo_date 100 1 ''disbursed'' None None demo_db =
     (Inr (demo_application\<lparr>a_status := Disbursed, a_disbursedAt := Some demo_date\<rparr>),
      demo_disbursed) \<and>
   collaterals demo_disbursed = [demo_collateral\<lparr>c_linkedLoan := Some 100\<rparr>] \<and>
   map c_linkedApplication (collaterals demo_disbursed) = [Some 1] \<and>
   map c_lienStatus (collaterals demo_disbursed) = [Marked]"
proof -
  have f: "find (\<lambda>a. a_id a = 1) (applications demo_db) = Some demo_application"
    by (simp add: demo_db_def demo_application_def)
  from disbursal_sets_loan_link [OF f demo_disbursal] f demo_disbursal
  show ?thesis
    by (simp add: demo_db_def demo_application_def demo_collateral_def)
qed

text \<open>
  Claim C1 as stated fails: the collateral of the example application satisfies the
  exclusive-pledge invariant before the disbursal, and after it has both links set with
  its lien marked.
\<close>

theorem exclusive_pledge_counterexample:
  "collaterals demo_db = [demo_collateral] \<and> exclusive_pledge demo_collateral \<and>
   updateApplicationStatus demo_date 100 1 ''disbursed'' None None demo_db =
     (Inr (demo_application\<lparr>a_status := Disbursed, a_disbursedAt := Some demo_date\<rparr>),
      demo_disbursed) \<and>
   collaterals demo_disbursed = [demo_collateral\<lparr>c_linkedLoan := Some 100\<rparr>] \<and>
   c_lienStatus (demo_collateral\<lparr>c_linkedLoan := Some 100\<rparr>) = Marked \<and>
   c_linkedApplication (demo_collateral\<lparr>c_linkedLoan := Some 100\<rparr>) = Some 1 \<and>
   c_linkedLoan (demo_collateral\<lparr>c_linkedLoan := Some 100\<rparr>) = Some 100 \<and>
   \<not> exclusive_pledge (demo_collateral\<lparr>c_linkedLoan := Some 100\<rparr>)"
  using demo_disbursal
  by (simp add: demo_db_def demo_disbursed_def demo_collateral_def exclusive_pledge_def)

subsection \<open>The EMI at an interest rate of zero\<close>

lemma calculate_emi_zero_rate: "calculate_emi amount 0 tenure = NaN"
  by (simp add: calculate_emi_def js_div_def)

text \<open>
  Claim C6, evaluated. For an application at 0 percent the EMI formula divides zero by
  zero: the EMI is NaN, not principal / tenure, and createLoanFromApplication fails
  without creating the loan.
\<close>

theorem zero_rate_disbursal_fails:
  assumes "find (\<lambda>a. a_id a = a_id application) (applications s) = Some populatedApp"
      and "a_interestRate populatedApp = 0"
  shows "calculate_emi
           (or_else (a_approvedAmount populatedApp) (a_requestedAmount populatedApp))
           (a_interestRate populatedApp / 12 / 100) (a_tenure populatedApp) = NaN \<and>
         (createLoanFromApplication now newId application s = (Inl TypeError, s) \<or>
          createLoanFromApplication now newId application s = (Inl ValidationError, s))"
  using assms
  by (simp add: createLoanFromApplication_def Let_def calculate_emi_zero_rate)

text \<open>The example application at 0 percent: 1200 over 2 months, where the claim has an EMI of 600.\<close>

theorem zero_rate_disbursal_fails_witness:
  "find (\<lambda>a. a_id a = a_id demo_application) (applications zero_rate_db) =
     Some (demo_application\<lparr>a_interestRate := 0\<rparr>) \<and>
   a_interestRate (demo_application\<lparr>a_interestRate := 0\<rparr>) = 0 \<and>
   calculate_emi 1200 0 2 = NaN \<and>
   createLoanFromApplication demo_date 100 demo_application zero_rate_db =
     (Inl ValidationError, zero_rate_db) \<and>
   updateApplicationStatus demo_date 100 1 ''disbursed'' None None zero_rate_db =
     (Inl ValidationError, zero_rate_db)"
proof -
  have f: "find (\<lambda>a. a_id a = a_id demo_application) (applications zero_rate_db) =
     Some (demo_application\<lparr>a_interestRate := 0\<rparr>)"
    by (simp add: zero_rate_db_def demo_db_def demo_application_def)
  have p: "a_loanProduct (demo_application\<lparr>a_interestRate := 0\<rparr>) \<in> set (products zero_rate_db)"
    by (simp add: zero_rate_db_def demo_db_def demo_application_def)
  have c: "createLoanFromApplication demo_date 100 demo_application zero_rate_db =
     (Inl ValidationError, zero_rate_db)"
    using f p by (simp add: createLoanFromApplication_def Let_def calculate_emi_zero_rate)
  have u: "updateApplicationStatus demo_date 100 1 ''disbursed'' None None zero_rate_db =
     (Inl ValidationError, zero_rate_db)"
    by (simp add: demo_defs disbursal_defs)
  from zero_rate_disbursal_fails [OF f, of demo_date 100] c u f
  show ?thesis
    by (simp add: demo_application_def or_else_def)
qed


section \<open>Marking and releasing a lien by hand\<close>

text \<open>
  releaseLien, the release of the collateral controller, clears both links; markLien
  without an application marks the lien and sets no link.
\<close>

lemma releaseLien_clears_both_links:
  assumes "releaseLien now collateralId s = (Inr c, s1)"
  shows "c_lienStatus c = Released \<and> c_linkedApplication c = None \<and> c_linkedLoan c = None"
  using assms
  by (auto simp: releaseLien_def collateral_save_def Let_def split: option.splits if_splits)

lemma markLien_without_application:
  assumes "find (\<lambda>c. c_id c = collateralId) (collaterals s) = Some collateral"
      and "markLien now collateralId None s = (Inr c, s1)"
  shows "c_lienStatus c = Marked \<and>
         c_linkedApplication c = c_linkedApplication collateral \<and>
         c_linkedLoan c = c_linkedLoan collateral"
  using assms
  by (auto simp: markLien_def collateral_save_def Let_def split: option.splits if_splits)

section \<open>Every saved loan meets the schema\<close>

text \<open>
  The requests that write loans keep every loan of the database within the minimums of
  the schema, since each write is a validated save.
\<close>

lemma put_loan_valid:
  "loan_valid l \<Longrightarrow> list_all loan_valid ls \<Longrightarrow> list_all loan_valid (put_loan l ls)"
  by (auto simp: put_loan_def list_all_iff)

lemma recordPayment_valid:
  assumes "loans_valid s"
  shows "loans_valid (snd (recordPayment now loanId emiNumber amount ref pd s))"
proof (cases "\<exists>loan i. find (\<lambda>l. l_id l = loanId) (loans s) = Some loan \<and>
    l_status loan \<noteq> LoanClosed \<and>
    findIndex (\<lambda>e. e_emiNumber e = emiNumber) (l_emiSchedule loan) = Some i \<and>
    e_status (l_emiSchedule loan ! i) \<noteq> Paid")
  case False
  then have "snd (recordPayment now loanId emiNumber amount ref pd s) = s"
    by (auto simp: recordPayment_def split: option.splits)
  with assms show ?thesis by simp
next
  case True
  then obtain loan i where h: "find (\<lambda>l. l_id l = loanId) (loans s) = Some loan"
    "l_status loan \<noteq> LoanClosed"
    "findIndex (\<lambda>e. e_emiNumber e = emiNumber) (l_emiSchedule loan) = Some i"
    "e_status (l_emiSchedule loan ! i) \<noteq> Paid" by blast
  show ?thesis
    using assms unfolding recordPayment_settle[OF h]
    by (simp add: Let_def loans_valid_def put_loan_valid)
qed

lemma updateLoanStatus_valid:
  assumes "loans_valid s"
  shows "loans_valid (snd (updateLoanStatus now loanId status s))"
  using assms
  by (auto simp: updateLoanStatus_def Let_def loans_valid_def put_loan_valid
           split: option.splits)

lemma sweep_valid:
  "list_all loan_valid ls \<Longrightarrow> list_all loan_valid (snd (sweep today ls))"
  by (induction ls) (auto simp: Let_def split: prod.splits)

lemma markOverdueEmis_valid:
  assumes "loans_valid s"
  shows "loans_valid (snd (markOverdueEmis now s))"
proof -
  obtain r ls where 1: "sweep (now\<lparr>msec := 0\<rparr>) (loans s) = (r, ls)"
    by fastforce
  with assms sweep_valid[of "loans s" "now\<lparr>msec := 0\<rparr>"] show ?thesis
    by (simp add: markOverdueEmis_def loans_valid_def)
qed

lemma createLoan_valid:
  assumes "loans_valid s"
  shows "loans_valid (snd (createLoanFromApplication now newId application s))"
  using assms
  by (auto simp: createLoanFromApplication_def Let_def loans_valid_def
           split: option.splits jsnum.splits)

lemma stage_valid:
  assumes "loans_valid s"
  shows "loans_valid (snd (stage now newId st approvedAmount application s))"
proof (cases st)
  case Disbursed
  obtain r s1 where c: "createLoanFromApplication now newId application s = (r, s1)"
    by fastforce
  with createLoan_valid[OF assms, of now newId application] have "loans_valid s1"
    by simp
  with c Disbursed show ?thesis
    by (cases r) (simp_all add: stage_def)
qed (use assms in \<open>simp_all add: stage_def loans_valid_def\<close>)

lemma updateApplicationStatus_valid:
  assumes "loans_valid s"
  shows "loans_valid
           (snd (updateApplicationStatus now newId appId status remarks approvedAmount s))"
proof -
  have *: "loans_valid (snd (case stage now newId st approvedAmount a s of
                       (Inl e, s1) \<Rightarrow> (Inl e, s1)
                     | (Inr application2, s1) \<Rightarrow>
                         let application3 = pre_save application2
                         in if app_valid application3
                            then (Inr application3,
                                  s1\<lparr>applications :=
                                       put_application application3 (applications s1)\<rparr>)
                            else (Inl ValidationError, s1)))" for st a
  proof -
    obtain r s1 where c: "stage now newId st approvedAmount a s = (r, s1)"
      by fastforce
    with stage_valid[OF assms, of now newId st approvedAmount a] have "loans_valid s1"
      by simp
    with c show ?thesis
      by (cases r) (simp_all add: Let_def loans_valid_def)
  qed
  show ?thesis
    using assms * by (simp add: updateApplicationStatus_def Let_def split: option.splits)
qed

end
